theory Spec2Isabelle
  imports Main "HOL-Library.Sublist"
begin

section \<open>JavaScript strings and numbers\<close>

text \<open>
  A JavaScript string is modelled as a \<^typ>\<open>string\<close>: a list of code units, each in the
  Latin-1 range \<open>0..255\<close>. A byte buffer is a list of bytes, written with the same type
  under another name. Code units beyond \<open>U+00FF\<close> are outside the model.
\<close>

type_synonym bytes = string

definition LF :: string where
  "LF = [CHR 0x0A]"

text \<open>\<open>s.startsWith(p)\<close>.\<close>

definition startsWith :: "string \<Rightarrow> string \<Rightarrow> bool" where
  "startsWith s p = prefix p s"

text \<open>\<open>s.slice(-k)\<close>: the last \<open>k\<close> code units, the whole string when it is shorter.\<close>

definition slice_last :: "nat \<Rightarrow> string \<Rightarrow> string" where
  "slice_last k s = drop (length s - k) s"

text \<open>The decimal digit of a number below ten.\<close>

definition digit_char :: "nat \<Rightarrow> char" where
  "digit_char n = ''0123456789'' ! (n mod 10)"

text \<open>The decimal rendering of a non-negative integer, as a template literal gives it.\<close>

fun nat_to_string :: "nat \<Rightarrow> string" where
  "nat_to_string n =
     (if n < 10 then [digit_char n] else nat_to_string (n div 10) @ [digit_char (n mod 10)])"

declare nat_to_string.simps [simp del]

definition int_to_string :: "int \<Rightarrow> string" where
  "int_to_string i = (if i < 0 then CHR ''-'' # nat_to_string (nat (- i)) else nat_to_string (nat i))"

text \<open>
  The UTF-8 encoding of a string whose code units are in the Latin-1 range: one byte
  below \<open>0x80\<close>, two bytes from \<open>0x80\<close> on.
\<close>

definition utf8_char :: "char \<Rightarrow> bytes" where
  "utf8_char c =
     (let n = (of_char c :: nat)
      in if n < 128 then [c] else [char_of (192 + n div 64), char_of (128 + n mod 64)])"

definition utf8_encode :: "string \<Rightarrow> bytes" where
  "utf8_encode s = concat (map utf8_char s)"

text \<open>\<open>Buffer.byteLength(s)\<close>, whose default encoding is UTF-8.\<close>

definition byteLength :: "string \<Rightarrow> nat" where
  "byteLength s = length (utf8_encode s)"

definition hex_digit :: "nat \<Rightarrow> char" where
  "hex_digit n = ''0123456789abcdef'' ! (n mod 16)"

definition hex_encode :: "bytes \<Rightarrow> string" where
  "hex_encode bs = concat (map (\<lambda>b. [hex_digit (of_char b div 16), hex_digit (of_char b mod 16)]) bs)"

section \<open>The runtime the client calls into\<close>

text \<open>
  The hash and the keyed hash come from Node's \<open>crypto\<close> module and the serialiser is
  \<open>JSON.stringify\<close>; none of them is code of this repository, so the model takes them
  as parameters. \<open>createHash_hex alg data\<close> stands for
  \<open>crypto.createHash(alg).update(data).digest('hex')\<close>, and \<open>createHmac_digest alg key msg\<close>
  for the raw digest bytes of \<open>crypto.createHmac(alg, key)\<close> after \<open>update(msg)\<close>.
\<close>

record 'v runtime =
  createHash_hex :: "string \<Rightarrow> string \<Rightarrow> string"
  createHmac_digest :: "string \<Rightarrow> bytes \<Rightarrow> bytes \<Rightarrow> bytes"
  JSON_stringify :: "'v \<Rightarrow> string"

section \<open>ClientConfig\<close>

record ClientConfig =
  apiVersionMajor :: string
  apiVersion :: string
  hashType :: string
  endpoint :: string
  endpointHost :: string
  accessKey :: string
  secretKey :: string
  proxyURL :: "string option"
  connectionMode :: string

text \<open>\<open>endpoint.replace(/^[^:]+:\/\//, '')\<close>: a leading scheme and \<open>://\<close> are removed.\<close>

definition strip_scheme :: "string \<Rightarrow> string" where
  "strip_scheme s =
     (let scheme = takeWhile (\<lambda>c. c \<noteq> CHR '':'') s;
          rest = dropWhile (\<lambda>c. c \<noteq> CHR '':'') s
      in if scheme \<noteq> [] \<and> prefix ''://'' rest then drop 3 rest else s)"

text \<open>
  The constructor. For the two keys and the endpoint, an argument that is \<open>undefined\<close>
  or \<open>null\<close> is \<open>None\<close>; the constructor throws a string when a key is missing. The
  connection mode is a string or is left out (\<open>None\<close>, which the default parameter turns
  into \<open>API\<close>); a \<open>null\<close> connection mode, which the source would store as it is,
  is outside the model.
\<close>

definition ClientConfig_new ::
  "string option \<Rightarrow> string option \<Rightarrow> string option \<Rightarrow> string option \<Rightarrow> string + ClientConfig"
where
  "ClientConfig_new accessKey_arg secretKey_arg endpoint_arg connectionMode_arg =
     (case accessKey_arg of
        None \<Rightarrow> Inl ''You must set accessKey! (either as argument or environment variable)''
      | Some ak \<Rightarrow>
     (case secretKey_arg of
        None \<Rightarrow> Inl ''You must set secretKey! (either as argument or environment variable)''
      | Some sk \<Rightarrow>
          (let ep = (case endpoint_arg of None \<Rightarrow> ''https://api.backend.ai'' | Some e \<Rightarrow> e)
           in Inr \<lparr> apiVersionMajor = ''v4'',
                    apiVersion = ''v4.20190315'',
                    hashType = ''sha256'',
                    endpoint = ep,
                    endpointHost = strip_scheme ep,
                    accessKey = ak,
                    secretKey = sk,
                    proxyURL = None,
                    connectionMode = (case connectionMode_arg of None \<Rightarrow> ''API'' | Some m \<Rightarrow> m) \<rparr>)))"

section \<open>Canonical request string, date key and signature\<close>

text \<open>
  \<open>getAuthenticationString(method, queryString, dateValue, bodyValue, content_type)\<close>;
  the last parameter defaults to \<open>application/json\<close> when it is left out.
\<close>

definition getAuthenticationString ::
  "'v runtime \<Rightarrow> ClientConfig \<Rightarrow> string \<Rightarrow> string \<Rightarrow> string \<Rightarrow> string \<Rightarrow> string option \<Rightarrow> string"
where
  "getAuthenticationString rt cfg method queryString dateValue bodyValue content_type_arg =
     (let content_type = (case content_type_arg of None \<Rightarrow> ''application/json'' | Some c \<Rightarrow> c);
          bodyHash = createHash_hex rt (hashType cfg) bodyValue
      in method @ LF @ queryString @ LF @ dateValue @ LF
         @ ''host:'' @ endpointHost cfg @ LF
         @ ''content-type:'' @ content_type @ LF
         @ ''x-backendai-version:'' @ apiVersion cfg @ LF
         @ bodyHash)"

text \<open>
  A \<open>Date\<close> is read only through its UTC getters, so it is modelled by the fields they
  return: \<open>getUTCMonth\<close> counts from 0, \<open>getUTCDate\<close> from 1.
\<close>

record js_date =
  utcFullYear :: int
  utcMonth :: nat
  utcDate :: nat
  utcHours :: nat
  utcMinutes :: nat
  utcSeconds :: nat
  utcMilliseconds :: nat

definition valid_date :: "js_date \<Rightarrow> bool" where
  "valid_date d = (utcMonth d < 12 \<and> 1 \<le> utcDate d \<and> utcDate d \<le> 31 \<and> utcHours d < 24
     \<and> utcMinutes d < 60 \<and> utcSeconds d < 60 \<and> utcMilliseconds d < 1000)"

definition getCurrentDate :: "js_date \<Rightarrow> string" where
  "getCurrentDate now =
     (let year = slice_last 4 (''0000'' @ int_to_string (utcFullYear now));
          month = slice_last 2 (''0'' @ nat_to_string (utcMonth now + 1));
          day = slice_last 2 (''0'' @ nat_to_string (utcDate now));
          t = year @ month @ day
      in t)"

datatype key_encoding = Utf8 | Binary

datatype digest_type = DigestBinary | DigestHex

text \<open>\<open>new Buffer(key, key_encoding)\<close>; \<open>'binary'\<close> is Latin-1, one byte per code unit.\<close>

definition Buffer_new :: "string \<Rightarrow> key_encoding \<Rightarrow> bytes" where
  "Buffer_new s enc = (case enc of Utf8 \<Rightarrow> utf8_encode s | Binary \<Rightarrow> s)"

definition digest_as :: "digest_type \<Rightarrow> bytes \<Rightarrow> string" where
  "digest_as t bs = (case t of DigestBinary \<Rightarrow> bs | DigestHex \<Rightarrow> hex_encode bs)"

definition sign ::
  "'v runtime \<Rightarrow> ClientConfig \<Rightarrow> string \<Rightarrow> key_encoding \<Rightarrow> string \<Rightarrow> digest_type \<Rightarrow> string"
where
  "sign rt cfg key key_enc msg digest_t =
     (let kbuf = Buffer_new key key_enc
      in digest_as digest_t (createHmac_digest rt (hashType cfg) kbuf (utf8_encode msg)))"

definition getSignKey :: "'v runtime \<Rightarrow> ClientConfig \<Rightarrow> string \<Rightarrow> js_date \<Rightarrow> string" where
  "getSignKey rt cfg secret_key now =
     (let k1 = sign rt cfg secret_key Utf8 (getCurrentDate now) DigestBinary;
          k2 = sign rt cfg k1 Binary (endpointHost cfg) DigestBinary
      in k2)"

section \<open>Client\<close>

text \<open>
  The fields of \<open>Client\<close> the request pipeline reads or writes. \<open>_managerVersion\<close> and
  \<open>_apiVersion\<close> start as \<open>null\<close> (\<open>None\<close>).
\<close>

record Client =
  clientVersion :: string
  agentSignature :: "string option"
  config :: ClientConfig
  managerVersion :: "string option"
  client_apiVersion :: "string option"

definition Client_new :: "ClientConfig \<Rightarrow> string option \<Rightarrow> Client" where
  "Client_new cfg agentSignature_arg =
     \<lparr> clientVersion = ''19.06.0'',
       agentSignature = agentSignature_arg,
       config = cfg,
       managerVersion = None,
       client_apiVersion = None \<rparr>"

text \<open>An absent or empty agent signature is falsy and adds nothing.\<close>

definition mangleUserAgentSignature :: "Client \<Rightarrow> string" where
  "mangleUserAgentSignature cl =
     clientVersion cl
       @ (case agentSignature cl of
            None \<Rightarrow> []
          | Some sig \<Rightarrow> (if sig = [] then [] else ''; '' @ sig))"

section \<open>Request assembly\<close>

text \<open>
  The body argument of a request constructor: \<open>undefined\<close>, \<open>null\<close>, a form, or any
  other value, which is serialised as JSON. A form of the \<open>form-data\<close> module has
  \<open>getBoundary\<close> and is an instance of \<open>FormData\<close>; a duck-typed one has only
  \<open>getBoundary\<close>; a native one is only an instance. The string a form carries is
  \<open>getHeaders()['content-type']\<close>.
\<close>

datatype formdata = NodeFormData string | DuckTypedForm string | NativeFormData

datatype 'v body_arg = BodyUndefined | BodyNull | BodyForm formdata | BodyValue 'v

datatype sent_body = SentText string | SentForm formdata

fun has_getBoundary :: "formdata \<Rightarrow> bool" where
  "has_getBoundary (NodeFormData h) = True"
| "has_getBoundary (DuckTypedForm h) = True"
| "has_getBoundary NativeFormData = False"

fun instanceof_FormData :: "formdata \<Rightarrow> bool" where
  "instanceof_FormData (NodeFormData h) = True"
| "instanceof_FormData (DuckTypedForm h) = False"
| "instanceof_FormData NativeFormData = True"

fun form_content_type :: "formdata \<Rightarrow> string" where
  "form_content_type (NodeFormData h) = h"
| "form_content_type (DuckTypedForm h) = h"
| "form_content_type NativeFormData = []"

text \<open>
  The request object. A property that a constructor does not set is \<open>None\<close>
  (\<open>undefined\<close>). Headers are a map from the header name, as the code writes it, to the
  value.
\<close>

record RequestInfo =
  "method" :: string
  headers :: "string \<rightharpoonup> string"
  cache :: string
  body :: "sent_body option"
  uri :: string
  mode :: "string option"
  credentials :: "string option"

text \<open>\<open>d.toISOString()\<close> of a valid date.\<close>

definition pad_zeros :: "nat \<Rightarrow> nat \<Rightarrow> string" where
  "pad_zeros width n = replicate (width - length (nat_to_string n)) CHR ''0'' @ nat_to_string n"

definition toISOString :: "js_date \<Rightarrow> string" where
  "toISOString d =
     (let y = utcFullYear d;
          year = (if 0 \<le> y \<and> y \<le> 9999 then pad_zeros 4 (nat y)
                  else (if y < 0 then ''-'' else ''+'') @ pad_zeros 6 (nat \<bar>y\<bar>))
      in year @ ''-'' @ pad_zeros 2 (utcMonth d + 1) @ ''-'' @ pad_zeros 2 (utcDate d)
         @ ''T'' @ pad_zeros 2 (utcHours d) @ '':'' @ pad_zeros 2 (utcMinutes d)
         @ '':'' @ pad_zeros 2 (utcSeconds d) @ ''.'' @ pad_zeros 3 (utcMilliseconds d) @ ''Z'')"

text \<open>
  \<open>this._config._apiVersion[1] < 4\<close>. Indexing past the end gives \<open>undefined\<close>, which
  compares as \<open>NaN\<close>. A one-character string converts to a number as JavaScript does it:
  a decimal digit to its value, a white-space character to 0, anything else to \<open>NaN\<close>
  (\<open>None\<close>), and every comparison with \<open>NaN\<close> is false.
\<close>

definition charAt_index :: "string \<Rightarrow> nat \<Rightarrow> char option" where
  "charAt_index s i = (if i < length s then Some (s ! i) else None)"

definition char_to_number :: "char \<Rightarrow> nat option" where
  "char_to_number c =
     (let n = (of_char c :: nat)
      in if 48 \<le> n \<and> n \<le> 57 then Some (n - 48)
         else if n = 9 \<or> n = 10 \<or> n = 11 \<or> n = 12 \<or> n = 13 \<or> n = 32 \<or> n = 160 then Some 0
         else None)"

definition js_less_than :: "char option \<Rightarrow> nat \<Rightarrow> bool" where
  "js_less_than v k =
     (case v of
        None \<Rightarrow> False
      | Some c \<Rightarrow> (case char_to_number c of None \<Rightarrow> False | Some n \<Rightarrow> n < k))"

text \<open>The three results of the first branch of \<open>newSignedRequest\<close>.\<close>

definition requestBody_of :: "'v runtime \<Rightarrow> 'v body_arg \<Rightarrow> sent_body" where
  "requestBody_of rt b =
     (case b of
        BodyUndefined \<Rightarrow> SentText []
      | BodyNull \<Rightarrow> SentText []
      | BodyForm f \<Rightarrow> SentForm f
      | BodyValue v \<Rightarrow> SentText (JSON_stringify rt v))"

definition authBody_of :: "'v runtime \<Rightarrow> 'v body_arg \<Rightarrow> string" where
  "authBody_of rt b =
     (case b of
        BodyUndefined \<Rightarrow> []
      | BodyNull \<Rightarrow> []
      | BodyForm f \<Rightarrow> []
      | BodyValue v \<Rightarrow> JSON_stringify rt v)"

definition content_type_of :: "'v body_arg \<Rightarrow> string" where
  "content_type_of b =
     (case b of
        BodyUndefined \<Rightarrow> ''application/json''
      | BodyNull \<Rightarrow> ''application/json''
      | BodyForm f \<Rightarrow> ''multipart/form-data''
      | BodyValue v \<Rightarrow> ''application/json'')"

text \<open>The canonical string the API-mode branch signs.\<close>

definition signed_aStr ::
  "'v runtime \<Rightarrow> ClientConfig \<Rightarrow> js_date \<Rightarrow> string \<Rightarrow> string \<Rightarrow> 'v body_arg \<Rightarrow> string"
where
  "signed_aStr rt cfg d method_arg queryString b =
     (if js_less_than (charAt_index (apiVersion cfg) 1) 4
      then getAuthenticationString rt cfg method_arg queryString (toISOString d)
             (authBody_of rt b) (Some (content_type_of b))
      else getAuthenticationString rt cfg method_arg queryString (toISOString d)
             [] (Some (content_type_of b)))"

text \<open>The headers set after the mode branch, from \<open>if (body != undefined)\<close> on.\<close>

definition set_body_headers ::
  "'v runtime \<Rightarrow> 'v body_arg \<Rightarrow> (string \<rightharpoonup> string) \<Rightarrow> (string \<rightharpoonup> string)"
where
  "set_body_headers rt b hdrs =
     (case b of
        BodyUndefined \<Rightarrow> hdrs(''Content-Type'' \<mapsto> content_type_of b)
      | BodyNull \<Rightarrow> hdrs(''Content-Type'' \<mapsto> content_type_of b)
      | BodyForm f \<Rightarrow>
          (let h1 = (if has_getBoundary f then hdrs(''Content-Type'' \<mapsto> form_content_type f)
                     else hdrs)
           in if instanceof_FormData f then h1
              else h1(''Content-Type'' \<mapsto> content_type_of b,
                      ''Content-Length'' \<mapsto> nat_to_string (byteLength (authBody_of rt b))))
      | BodyValue v \<Rightarrow>
          hdrs(''Content-Type'' \<mapsto> content_type_of b,
               ''Content-Length'' \<mapsto> nat_to_string (byteLength (authBody_of rt b))))"

text \<open>
  \<open>newSignedRequest(method, queryString, body)\<close>; \<open>d\<close> is the clock reading of
  \<open>new Date()\<close>.
\<close>

definition newSignedRequest ::
  "'v runtime \<Rightarrow> Client \<Rightarrow> js_date \<Rightarrow> string \<Rightarrow> string \<Rightarrow> 'v body_arg \<Rightarrow> RequestInfo"
where
  "newSignedRequest rt cl d method_arg queryString b =
     (let cfg = config cl;
          requestBody = requestBody_of rt b;
          (hdrs, uri_v) =
            (if connectionMode cfg = ''SESSION''
             then
               ([''User-Agent'' \<mapsto> ''Backend.AI Client for Javascript '' @ mangleUserAgentSignature cl,
                 ''X-BackendAI-Version'' \<mapsto> apiVersion cfg,
                 ''X-BackendAI-Date'' \<mapsto> toISOString d],
                if startsWith queryString ''/server''
                then endpoint cfg @ queryString
                else endpoint cfg @ ''/func'' @ queryString)
             else
               (let aStr = signed_aStr rt cfg d method_arg queryString b;
                    signKey = getSignKey rt cfg (secretKey cfg) d;
                    rqstSig = sign rt cfg signKey Binary aStr DigestHex
                in ([''User-Agent'' \<mapsto> ''Backend.AI Client for Javascript '' @ mangleUserAgentSignature cl,
                     ''X-BackendAI-Version'' \<mapsto> apiVersion cfg,
                     ''X-BackendAI-Date'' \<mapsto> toISOString d,
                     ''Authorization'' \<mapsto> ''BackendAI signMethod=HMAC-SHA256, credential=''
                        @ accessKey cfg @ '':'' @ rqstSig],
                    endpoint cfg @ queryString)))
      in \<lparr> method = method_arg,
           headers = set_body_headers rt b hdrs,
           cache = ''default'',
           body = Some requestBody,
           uri = uri_v,
           mode = None,
           credentials = None \<rparr>)"

text \<open>
  \<open>newPublicRequest(method, queryString, body, urlPrefix)\<close>: the body and the prefix
  are not used.
\<close>

definition newPublicRequest ::
  "Client \<Rightarrow> js_date \<Rightarrow> string \<Rightarrow> string \<Rightarrow> 'v body_arg \<Rightarrow> string \<Rightarrow> RequestInfo"
where
  "newPublicRequest cl d method_arg queryString b urlPrefix =
     (let cfg = config cl;
          hdrs = [''Content-Type'' \<mapsto> ''application/json'',
                  ''User-Agent'' \<mapsto> ''Backend.AI Client for Javascript '' @ mangleUserAgentSignature cl,
                  ''X-BackendAI-Version'' \<mapsto> apiVersion cfg,
                  ''X-BackendAI-Date'' \<mapsto> toISOString d,
                  ''credentials'' \<mapsto> ''include'',
                  ''mode'' \<mapsto> ''cors''];
          uri_v =
            (if connectionMode cfg = ''SESSION'' \<and> startsWith queryString ''/server'' = True
             then endpoint cfg @ queryString
             else if connectionMode cfg = ''SESSION'' \<and> startsWith queryString ''/server'' = False
             then endpoint cfg @ ''/func'' @ queryString
             else endpoint cfg @ queryString)
      in \<lparr> method = method_arg,
           headers = hdrs,
           cache = ''default'',
           body = None,
           uri = uri_v,
           mode = Some ''cors'',
           credentials = None \<rparr>)"

definition newUnsignedRequest ::
  "Client \<Rightarrow> js_date \<Rightarrow> string \<Rightarrow> string \<Rightarrow> 'v body_arg \<Rightarrow> RequestInfo"
where
  "newUnsignedRequest cl d method_arg queryString b =
     newPublicRequest cl d method_arg queryString b (apiVersionMajor (config cl))"

section \<open>Response processing\<close>

text \<open>
  A decoded JSON value. An object lists each of its keys once. Numbers are the integers
  of magnitude below \<open>2 ^ 53\<close>, which a template literal prints digit by digit; other
  numbers are outside the model.
\<close>

datatype json =
    JNull
  | JBool bool
  | JNum int
  | JStr string
  | JArr "json list"
  | JObj "(string \<times> json) list"

fun join_with :: "string \<Rightarrow> string list \<Rightarrow> string" where
  "join_with sep [] = []"
| "join_with sep [x] = x"
| "join_with sep (x # y # ys) = x @ sep @ join_with sep (y # ys)"

fun collect_all :: "'a option list \<Rightarrow> 'a list option" where
  "collect_all [] = Some []"
| "collect_all (None # xs) = None"
| "collect_all (Some x # xs) = (case collect_all xs of None \<Rightarrow> None | Some ys \<Rightarrow> Some (x # ys))"

text \<open>
  What a template literal renders for a JSON value, or \<open>None\<close> when the conversion
  throws a \<open>TypeError\<close>: an object with a key \<open>toString\<close> of its own hides the
  inherited method behind a value that cannot be called, and no other conversion gives
  a primitive. An array joins the renderings of its elements, a \<open>null\<close> element as
  the empty string.
\<close>

fun js_toString :: "json \<Rightarrow> string option" where
  "js_toString JNull = Some ''null''"
| "js_toString (JBool b) = Some (if b then ''true'' else ''false'')"
| "js_toString (JNum n) = Some (int_to_string n)"
| "js_toString (JStr s) = Some s"
| "js_toString (JArr xs) =
     (case collect_all (map (\<lambda>x. if x = JNull then Some [] else js_toString x) xs) of
        None \<Rightarrow> None
      | Some parts \<Rightarrow> Some (join_with '','' parts))"
| "js_toString (JObj kvs) =
     (if map_of kvs ''toString'' = None then Some ''[object Object]'' else None)"

text \<open>
  The response as the processor reads it: the \<open>Content-Type\<close> header (\<open>None\<close> when
  absent), the status line, whether \<open>resp.blob\<close> is defined, and what each of the four
  body readers would settle to (\<open>Inl\<close> is a rejection, rendered as a string).
\<close>

record response =
  content_type_header :: "string option"
  status :: nat
  statusText :: string
  has_blob :: bool
  json_result :: "string + json"
  text_result :: "string + string"
  buffer_result :: "string + bytes"
  blob_result :: "string + bytes"

definition response_ok :: "response \<Rightarrow> bool" where
  "response_ok resp = (200 \<le> status resp \<and> status resp \<le> 299)"

datatype decoded = DecodedJson json | DecodedText string | DecodedBuffer bytes | DecodedBlob bytes

datatype decode_path = RawBinary | JsonParse | TextDecode

text \<open>The chain of conditions that picks the body reader.\<close>

definition select_decoder :: "bool \<Rightarrow> string option \<Rightarrow> decode_path" where
  "select_decoder rawFile contentType =
     (if rawFile = False \<and> contentType = None then RawBinary
      else if rawFile = False \<and>
              (case contentType of
                 None \<Rightarrow> False
               | Some ct \<Rightarrow> startsWith ct ''application/json''
                            \<or> startsWith ct ''application/problem+json'')
      then JsonParse
      else if rawFile = False \<and>
              (case contentType of None \<Rightarrow> False | Some ct \<Rightarrow> startsWith ct ''text/'')
      then TextDecode
      else RawBinary)"

definition read_body :: "decode_path \<Rightarrow> response \<Rightarrow> string + decoded" where
  "read_body path resp =
     (case path of
        RawBinary \<Rightarrow>
          (if \<not> has_blob resp
           then (case buffer_result resp of Inl e \<Rightarrow> Inl e | Inr bs \<Rightarrow> Inr (DecodedBuffer bs))
           else (case blob_result resp of Inl e \<Rightarrow> Inl e | Inr bs \<Rightarrow> Inr (DecodedBlob bs)))
      | JsonParse \<Rightarrow> (case json_result resp of Inl e \<Rightarrow> Inl e | Inr j \<Rightarrow> Inr (DecodedJson j))
      | TextDecode \<Rightarrow> (case text_result resp of Inl e \<Rightarrow> Inl e | Inr t \<Rightarrow> Inr (DecodedText t)))"

text \<open>
  \<open>`${body.title}`\<close>: reading a property of \<open>null\<close> throws a \<open>TypeError\<close> (\<open>None\<close>),
  and so does a title that cannot be converted to a string; a value without the
  property renders as \<open>undefined\<close>.
\<close>

fun body_title :: "decoded \<Rightarrow> string option" where
  "body_title (DecodedJson JNull) = None"
| "body_title (DecodedJson (JObj kvs)) =
     (case map_of kvs ''title'' of None \<Rightarrow> Some ''undefined'' | Some j \<Rightarrow> js_toString j)"
| "body_title (DecodedJson j) = Some ''undefined''"
| "body_title (DecodedText t) = Some ''undefined''"
| "body_title (DecodedBuffer bs) = Some ''undefined''"
| "body_title (DecodedBlob bs) = Some ''undefined''"

definition ERR_SERVER :: nat where "ERR_SERVER = 0"
definition ERR_RESPONSE :: nat where "ERR_RESPONSE = 1"
definition ERR_REQUEST :: nat where "ERR_REQUEST = 2"

text \<open>
  What a promise rejects with: the object \<open>{type, message}\<close> the processor throws, or a
  \<open>TypeError\<close> that escapes it.
\<close>

datatype thrown = ClassifiedError (err_type: nat) (message: string) | UncaughtTypeError

datatype 'a promise = Resolved 'a | Rejected thrown

text \<open>The changes \<open>_wrapWithPromise\<close> makes to the request before it calls \<open>fetch\<close>.\<close>

definition prepare_request :: "ClientConfig \<Rightarrow> RequestInfo \<Rightarrow> RequestInfo" where
  "prepare_request cfg rqst =
     (let r1 = (if method rqst = ''GET'' then rqst\<lparr>body := None\<rparr> else rqst)
      in if connectionMode cfg = ''SESSION''
         then r1\<lparr>credentials := Some ''include'', mode := Some ''cors''\<rparr>
         else r1)"

text \<open>
  \<open>_wrapWithPromise(rqst, rawFile)\<close>. \<open>fetch\<close> is the transport: it rejects (\<open>Inl\<close>, the
  reason rendered as a string) or gives a response. The variable \<open>errorType\<close> of the
  source is the position in the nested cases.
\<close>

definition wrapWithPromise ::
  "ClientConfig \<Rightarrow> (string \<Rightarrow> RequestInfo \<Rightarrow> string + response) \<Rightarrow> RequestInfo \<Rightarrow> bool
     \<Rightarrow> decoded promise"
where
  "wrapWithPromise cfg fetch rqst rawFile =
     (let rq = prepare_request cfg rqst
      in case fetch (uri rq) rq of
           Inl err \<Rightarrow>
             Rejected (ClassifiedError ERR_REQUEST (''sending request has failed: '' @ err))
         | Inr resp \<Rightarrow>
             (case read_body (select_decoder rawFile (content_type_header resp)) resp of
                Inl err \<Rightarrow>
                  Rejected (ClassifiedError ERR_RESPONSE (''reading response has failed: '' @ err))
              | Inr b \<Rightarrow>
                  (if \<not> response_ok resp
                   then (case body_title b of
                           None \<Rightarrow> Rejected UncaughtTypeError
                         | Some title \<Rightarrow>
                             Rejected (ClassifiedError ERR_SERVER
                               (''server responded failure: ''
                                @ nat_to_string (status resp) @ '' '' @ statusText resp
                                @ '' - '' @ title)))
                   else Resolved b)))"

section \<open>Operations that write to the client\<close>

text \<open>
  The decoded replies of the version probe and of the login check, in the shape the
  server documents: \<open>{manager, version}\<close> and \<open>{authenticated, data: {access_key}}\<close>
  with string fields.
\<close>

record server_version =
  manager :: string
  version :: string

record login_check =
  authenticated :: bool
  data_access_key :: string

text \<open>
  \<open>getManagerVersion()\<close>, given what \<open>getServerVersion()\<close> settles to. The result is the
  client after the call and the promise's outcome.
\<close>

definition getManagerVersion ::
  "Client \<Rightarrow> server_version promise \<Rightarrow> Client \<times> string option promise"
where
  "getManagerVersion cl probe =
     (if managerVersion cl = None
      then (case probe of
              Rejected e \<Rightarrow> (cl, Rejected e)
            | Resolved v \<Rightarrow>
                (let cl1 = cl\<lparr>managerVersion := Some (manager v)\<rparr>;
                     cl2 = cl1\<lparr>client_apiVersion := Some (version v)\<rparr>;
                     cl3 = cl2\<lparr>config := (config cl2)\<lparr>apiVersion := version v\<rparr>\<rparr>
                 in (cl3, Resolved (managerVersion cl3))))
      else (cl, Resolved (managerVersion cl)))"

text \<open>
  \<open>check_login()\<close>, given what the login-check request settles to. A rejection is
  caught and answered with \<open>false\<close>.
\<close>

definition check_login :: "Client \<Rightarrow> login_check promise \<Rightarrow> Client \<times> bool" where
  "check_login cl outcome =
     (case outcome of
        Rejected e \<Rightarrow> (cl, False)
      | Resolved result \<Rightarrow>
          (if authenticated result = True
           then (cl\<lparr>config := (config cl)\<lparr>accessKey := data_access_key result\<rparr>\<rparr>,
                 authenticated result)
           else (cl, authenticated result)))"

text \<open>The requests \<open>getServerVersion\<close> and \<open>check_login\<close> send.\<close>

definition getServerVersion_request :: "Client \<Rightarrow> js_date \<Rightarrow> RequestInfo" where
  "getServerVersion_request cl d = newPublicRequest cl d ''GET'' ''/'' (BodyNull :: unit body_arg) []"

definition check_login_request :: "'v runtime \<Rightarrow> Client \<Rightarrow> js_date \<Rightarrow> RequestInfo" where
  "check_login_request rt cl d = newSignedRequest rt cl d ''POST'' ''/server/login-check'' BodyNull"

section \<open>Version comparison\<close>

text \<open>
  \<open>isAPIVersionCompatibleWith(version)\<close>: both versions are split at the dots, every part
  is padded to ten characters, and the results are compared as strings. The client's
  \<open>_apiVersion\<close> is \<open>null\<close> before the version probe, and splitting it throws (\<open>None\<close>).
\<close>

fun split_on :: "char \<Rightarrow> string \<Rightarrow> string list" where
  "split_on c [] = [[]]"
| "split_on c (x # xs) =
     (if x = c then [] # split_on c xs
      else (case split_on c xs of [] \<Rightarrow> [[x]] | w # ws \<Rightarrow> (x # w) # ws))"

definition padStart :: "nat \<Rightarrow> string \<Rightarrow> string" where
  "padStart n s = replicate (n - length s) CHR '' '' @ s"

fun string_le :: "string \<Rightarrow> string \<Rightarrow> bool" where
  "string_le [] ys = True"
| "string_le (x # xs) [] = False"
| "string_le (x # xs) (y # ys) =
     (if (of_char x :: nat) < of_char y then True
      else if (of_char y :: nat) < of_char x then False
      else string_le xs ys)"

definition padded_version :: "string \<Rightarrow> string" where
  "padded_version v = join_with ''.'' (map (padStart 10) (split_on CHR ''.'' v))"

definition isAPIVersionCompatibleWith :: "Client \<Rightarrow> string \<Rightarrow> bool option" where
  "isAPIVersionCompatibleWith cl version_arg =
     (case client_apiVersion cl of
        None \<Rightarrow> None
      | Some apiVersion_v \<Rightarrow> Some (string_le (padded_version version_arg) (padded_version apiVersion_v)))"

section \<open>Vocabulary of the properties\<close>

text \<open>The UTC calendar date of a timestamp.\<close>

definition utc_day :: "js_date \<Rightarrow> int \<times> nat \<times> nat" where
  "utc_day d = (utcFullYear d, utcMonth d, utcDate d)"

text \<open>Two different (key, message) pairs with the same keyed hash.\<close>

definition hmac_collision ::
  "(bytes \<Rightarrow> bytes \<Rightarrow> bytes) \<Rightarrow> bytes \<times> bytes \<Rightarrow> bytes \<times> bytes \<Rightarrow> bool"
where
  "hmac_collision H a b = (a \<noteq> b \<and> H (fst a) (snd a) = H (fst b) (snd b))"

text \<open>
  The condition of the source on the protocol version, spelled out: the version has a
  character at index 1 and that character converts to a number below 4.
\<close>

definition second_char_below_4 :: "string \<Rightarrow> bool" where
  "second_char_below_4 v =
     (1 < length v \<and> (case char_to_number (v ! 1) of None \<Rightarrow> False | Some n \<Rightarrow> n < 4))"

section \<open>Example data\<close>

text \<open>
  A stand-in runtime for worked examples: the hash wraps its input in the name of the
  algorithm, the keyed hash joins key and message, and the serialiser is the identity
  on strings.
\<close>

definition example_runtime :: "string runtime" where
  "example_runtime =
     \<lparr> createHash_hex = (\<lambda>alg data. alg @ ''('' @ data @ '')''),
       createHmac_digest = (\<lambda>alg key msg. key @ ''|'' @ msg),
       JSON_stringify = (\<lambda>v. v) \<rparr>"

definition example_config :: ClientConfig where
  "example_config =
     \<lparr> apiVersionMajor = ''v4'',
       apiVersion = ''v4.20190315'',
       hashType = ''sha256'',
       endpoint = ''https://api.example.com'',
       endpointHost = ''api.example.com'',
       accessKey = ''AKEXAMPLE'',
       secretKey = ''s3cr3t'',
       proxyURL = None,
       connectionMode = ''API'' \<rparr>"

definition example_client :: Client where
  "example_client = Client_new example_config None"

definition session_client :: Client where
  "session_client = Client_new (example_config\<lparr>connectionMode := ''SESSION''\<rparr>) None"

text \<open>A timestamp from its UTC fields: year, month from 0, day, hour, minute.\<close>

definition utc_time :: "int \<Rightarrow> nat \<Rightarrow> nat \<Rightarrow> nat \<Rightarrow> nat \<Rightarrow> js_date" where
  "utc_time y m d h mi =
     \<lparr> utcFullYear = y, utcMonth = m, utcDate = d, utcHours = h, utcMinutes = mi,
       utcSeconds = 0, utcMilliseconds = 0 \<rparr>"

text \<open>Responses with the given status line, body text and decoded body.\<close>

definition json_response :: "nat \<Rightarrow> string \<Rightarrow> string \<Rightarrow> json \<Rightarrow> response" where
  "json_response st st_text raw j =
     \<lparr> content_type_header = Some ''application/json'',
       status = st,
       statusText = st_text,
       has_blob = False,
       json_result = Inr j,
       text_result = Inr raw,
       buffer_result = Inr raw,
       blob_result = Inr raw \<rparr>"

definition text_response :: "nat \<Rightarrow> string \<Rightarrow> string \<Rightarrow> string \<Rightarrow> response" where
  "text_response st st_text ct t =
     \<lparr> content_type_header = Some ct,
       status = st,
       statusText = st_text,
       has_blob = False,
       json_result = Inl ''Unexpected token'',
       text_result = Inr t,
       buffer_result = Inr t,
       blob_result = Inr t \<rparr>"

section \<open>Decimal rendering\<close>

lemma digit_char_0: "digit_char 0 = CHR ''0''"
  by (simp add: digit_char_def)

lemma of_char_digit_char: "(of_char (digit_char n) :: nat) = 48 + n mod 10"
proof -
  have "n mod 10 < 10" by simp
  then have "n mod 10 \<in> {0, 1, 2, 3, 4, 5, 6, 7, 8, 9}"
    by (simp only: insert_iff empty_iff) arith
  then show ?thesis
    unfolding digit_char_def by (elim insertE emptyE) simp_all
qed

lemma digit_char_inj:
  assumes "a < 10" "b < 10" "digit_char a = digit_char b"
  shows "a = b"
proof -
  have "(of_char (digit_char a) :: nat) = of_char (digit_char b)"
    by (simp only: assms(3))
  then have "a mod 10 = b mod 10"
    by (simp only: of_char_digit_char add_left_cancel)
  with assms(1,2) show ?thesis by simp
qed

lemma digit_char_ascii: "(of_char (digit_char n) :: nat) < 128"
  by (simp add: of_char_digit_char)

lemma nat_to_string_1: "n < 10 \<Longrightarrow> nat_to_string n = [digit_char n]"
  by (simp add: nat_to_string.simps)

lemma nat_to_string_2:
  "10 \<le> n \<Longrightarrow> n < 100 \<Longrightarrow> nat_to_string n = [digit_char (n div 10), digit_char (n mod 10)]"
  by (subst nat_to_string.simps) (simp add: nat_to_string_1)

lemma nat_to_string_3:
  "100 \<le> n \<Longrightarrow> n < 1000 \<Longrightarrow>
   nat_to_string n = [digit_char (n div 100), digit_char (n div 10 mod 10), digit_char (n mod 10)]"
  by (subst nat_to_string.simps) (simp add: nat_to_string_2 div_mult2_eq[symmetric])

lemma nat_to_string_4:
  "1000 \<le> n \<Longrightarrow> n < 10000 \<Longrightarrow>
   nat_to_string n = [digit_char (n div 1000), digit_char (n div 100 mod 10),
                      digit_char (n div 10 mod 10), digit_char (n mod 10)]"
  by (subst nat_to_string.simps) (simp add: nat_to_string_3 div_mult2_eq[symmetric])

lemma pad2:
  assumes "n < 100"
  shows "slice_last 2 (''0'' @ nat_to_string n) = [digit_char (n div 10), digit_char (n mod 10)]"
proof (cases "n < 10")
  case True
  then show ?thesis by (simp add: nat_to_string_1 slice_last_def digit_char_0)
next
  case False
  with assms show ?thesis by (simp add: nat_to_string_2 slice_last_def)
qed

lemma pad4:
  assumes "n < 10000"
  shows "slice_last 4 (''0000'' @ nat_to_string n) =
           [digit_char (n div 1000), digit_char (n div 100 mod 10),
            digit_char (n div 10 mod 10), digit_char (n mod 10)]"
proof -
  consider "n < 10" | "10 \<le> n" "n < 100" | "100 \<le> n" "n < 1000" | "1000 \<le> n"
    by linarith
  then show ?thesis
  proof cases
    case 1
    then show ?thesis by (simp add: nat_to_string_1 slice_last_def digit_char_0)
  next
    case 2
    then show ?thesis by (simp add: nat_to_string_2 slice_last_def digit_char_0)
  next
    case 3
    then show ?thesis by (simp add: nat_to_string_3 slice_last_def digit_char_0)
  next
    case 4
    with assms show ?thesis by (simp add: nat_to_string_4 slice_last_def)
  qed
qed

lemma digits2_inj:
  assumes "a < 100" "b < 100"
    and "[digit_char (a div 10), digit_char (a mod 10)] = [digit_char (b div 10), digit_char (b mod 10)]"
  shows "a = b"
proof -
  have "a div 10 < 10" "b div 10 < 10" "a mod 10 < 10" "b mod 10 < 10"
    using assms(1,2) by simp_all
  moreover have "digit_char (a div 10) = digit_char (b div 10)"
    "digit_char (a mod 10) = digit_char (b mod 10)"
    using assms(3) by simp_all
  ultimately have "a div 10 = b div 10" "a mod 10 = b mod 10"
    by (blast intro: digit_char_inj)+
  then show ?thesis by (metis div_mult_mod_eq)
qed

lemma digits4_inj:
  assumes "a < 10000" "b < 10000"
    and "[digit_char (a div 1000), digit_char (a div 100 mod 10),
          digit_char (a div 10 mod 10), digit_char (a mod 10)]
       = [digit_char (b div 1000), digit_char (b div 100 mod 10),
          digit_char (b div 10 mod 10), digit_char (b mod 10)]"
  shows "a = b"
proof -
  have "a div 1000 < 10" "b div 1000 < 10"
    using assms(1,2) by simp_all
  moreover have "digit_char (a div 1000) = digit_char (b div 1000)"
    using assms(3) by simp
  ultimately have e3: "a div 1000 = b div 1000"
    by (blast intro: digit_char_inj)
  have "digit_char (a div 100 mod 10) = digit_char (b div 100 mod 10)"
    using assms(3) by simp
  then have e2: "a div 100 mod 10 = b div 100 mod 10"
    by (rule digit_char_inj[rotated 2]) simp_all
  have "digit_char (a div 10 mod 10) = digit_char (b div 10 mod 10)"
    using assms(3) by simp
  then have e1: "a div 10 mod 10 = b div 10 mod 10"
    by (rule digit_char_inj[rotated 2]) simp_all
  have "digit_char (a mod 10) = digit_char (b mod 10)"
    using assms(3) by simp
  then have e0: "a mod 10 = b mod 10"
    by (rule digit_char_inj[rotated 2]) simp_all
  have d100: "a div 100 = b div 100"
  proof -
    have "a div 100 div 10 = b div 100 div 10" using e3 by (simp add: div_mult2_eq[symmetric])
    with e2 show ?thesis by (metis div_mult_mod_eq)
  qed
  have d10: "a div 10 = b div 10"
  proof -
    have "a div 10 div 10 = b div 10 div 10" using d100 by (simp add: div_mult2_eq[symmetric])
    with e1 show ?thesis by (metis div_mult_mod_eq)
  qed
  with e0 show ?thesis by (metis div_mult_mod_eq)
qed

lemma utf8_encode_ascii: "\<forall>c\<in>set s. (of_char c :: nat) < 128 \<Longrightarrow> utf8_encode s = s"
  by (induction s) (simp_all add: utf8_encode_def utf8_char_def)

section \<open>The date string\<close>

lemma getCurrentDate_digits:
  assumes "valid_date d" "0 \<le> utcFullYear d" "utcFullYear d \<le> 9999"
  shows "getCurrentDate d =
     [digit_char (nat (utcFullYear d) div 1000), digit_char (nat (utcFullYear d) div 100 mod 10),
      digit_char (nat (utcFullYear d) div 10 mod 10), digit_char (nat (utcFullYear d) mod 10),
      digit_char ((utcMonth d + 1) div 10), digit_char ((utcMonth d + 1) mod 10),
      digit_char (utcDate d div 10), digit_char (utcDate d mod 10)]"
proof -
  have y: "nat (utcFullYear d) < 10000" using assms by linarith
  have m: "utcMonth d + 1 < 100" and dd: "utcDate d < 100"
    using assms(1) by (simp_all add: valid_date_def)
  have i: "int_to_string (utcFullYear d) = nat_to_string (nat (utcFullYear d))"
    using assms(2) by (simp add: int_to_string_def)
  show ?thesis
    unfolding getCurrentDate_def Let_def i pad4[OF y] pad2[OF m] pad2[OF dd] by simp
qed

lemma getCurrentDate_inj:
  assumes "valid_date d1" "0 \<le> utcFullYear d1" "utcFullYear d1 \<le> 9999"
      and "valid_date d2" "0 \<le> utcFullYear d2" "utcFullYear d2 \<le> 9999"
      and "getCurrentDate d1 = getCurrentDate d2"
  shows "utc_day d1 = utc_day d2"
proof -
  have y1: "nat (utcFullYear d1) < 10000" and y2: "nat (utcFullYear d2) < 10000"
    using assms by linarith+
  have m: "utcMonth d1 + 1 < 100" "utcMonth d2 + 1 < 100"
    and dd: "utcDate d1 < 100" "utcDate d2 < 100"
    using assms(1,4) by (simp_all add: valid_date_def)
  from assms(7) have eq:
    "[digit_char (nat (utcFullYear d1) div 1000), digit_char (nat (utcFullYear d1) div 100 mod 10),
      digit_char (nat (utcFullYear d1) div 10 mod 10), digit_char (nat (utcFullYear d1) mod 10)]
     = [digit_char (nat (utcFullYear d2) div 1000), digit_char (nat (utcFullYear d2) div 100 mod 10),
      digit_char (nat (utcFullYear d2) div 10 mod 10), digit_char (nat (utcFullYear d2) mod 10)]"
    "[digit_char ((utcMonth d1 + 1) div 10), digit_char ((utcMonth d1 + 1) mod 10)]
     = [digit_char ((utcMonth d2 + 1) div 10), digit_char ((utcMonth d2 + 1) mod 10)]"
    "[digit_char (utcDate d1 div 10), digit_char (utcDate d1 mod 10)]
     = [digit_char (utcDate d2 div 10), digit_char (utcDate d2 mod 10)]"
    by (simp_all add: getCurrentDate_digits[OF assms(1-3)] getCurrentDate_digits[OF assms(4-6)])
  have "nat (utcFullYear d1) = nat (utcFullYear d2)" by (rule digits4_inj[OF y1 y2 eq(1)])
  moreover have "utcMonth d1 + 1 = utcMonth d2 + 1" by (rule digits2_inj[OF m eq(2)])
  moreover have "utcDate d1 = utcDate d2" by (rule digits2_inj[OF dd eq(3)])
  ultimately show ?thesis using assms(2,5) by (simp add: utc_day_def)
qed

lemma getCurrentDate_utf8:
  assumes "valid_date d" "0 \<le> utcFullYear d" "utcFullYear d \<le> 9999"
  shows "utf8_encode (getCurrentDate d) = getCurrentDate d"
  by (rule utf8_encode_ascii) (simp add: getCurrentDate_digits[OF assms] digit_char_ascii)

lemma getCurrentDate_same_day: "utc_day d1 = utc_day d2 \<Longrightarrow> getCurrentDate d1 = getCurrentDate d2"
  by (simp add: utc_day_def getCurrentDate_def)

lemma getSignKey_unfold:
  "getSignKey rt cfg secret now =
     createHmac_digest rt (hashType cfg)
       (createHmac_digest rt (hashType cfg) (utf8_encode secret) (utf8_encode (getCurrentDate now)))
       (utf8_encode (endpointHost cfg))"
  by (simp add: getSignKey_def sign_def Buffer_new_def digest_as_def)

section \<open>The canonical request string\<close>

text \<open>
  Claim C1. For every method, path, timestamp, body and content type, the canonical
  string is the seven components joined by line feeds, in the order method, path,
  timestamp, \<open>host:\<close> and the endpoint host, \<open>content-type:\<close> and the content type,
  \<open>x-backendai-version:\<close> and the protocol version, and the hex digest of the body
  under the configured hash algorithm. A content type that is left out stands for
  \<open>application/json\<close>. The builder reads nothing but its arguments and the three
  configuration fields, so equal inputs give the same string.
\<close>

theorem getAuthenticationString_canonical:
  "getAuthenticationString rt cfg m p ts b (Some ct) =
     join_with LF [m, p, ts, ''host:'' @ endpointHost cfg, ''content-type:'' @ ct,
                   ''x-backendai-version:'' @ apiVersion cfg,
                   createHash_hex rt (hashType cfg) b]
   \<and> getAuthenticationString rt cfg m p ts b None =
       getAuthenticationString rt cfg m p ts b (Some ''application/json'')"
  by (simp add: getAuthenticationString_def)

section \<open>Facts about the example data\<close>

lemma valid_utc_time:
  "m < 12 \<Longrightarrow> 1 \<le> d \<Longrightarrow> d \<le> 31 \<Longrightarrow> h < 24 \<Longrightarrow> mi < 60 \<Longrightarrow> valid_date (utc_time y m d h mi)"
  by (simp add: valid_date_def utc_time_def)

lemma utc_day_utc_time: "utc_day (utc_time y m d h mi) = (y, m, d)"
  by (simp add: utc_day_def utc_time_def)

lemma utcFullYear_utc_time: "utcFullYear (utc_time y m d h mi) = y"
  by (simp add: utc_time_def)

lemma nat_to_string_examples:
  "nat_to_string 3 = ''3''" "nat_to_string 15 = ''15''" "nat_to_string 16 = ''16''"
  "nat_to_string 2019 = ''2019''" "nat_to_string 12019 = ''12019''"
  by (simp_all add: nat_to_string.simps digit_char_def)

lemma getCurrentDate_examples:
  "getCurrentDate (utc_time 2019 2 15 0 0) = ''20190315''"
  "getCurrentDate (utc_time 2019 2 15 23 59) = ''20190315''"
  "getCurrentDate (utc_time 2019 2 16 0 0) = ''20190316''"
  "getCurrentDate (utc_time 12019 2 15 0 0) = ''20190315''"
  by (simp_all add: getCurrentDate_def utc_time_def slice_last_def int_to_string_def
      nat_to_string_examples)

lemma example_hmac:
  "createHmac_digest example_runtime alg k m = k @ ''|'' @ m"
  by (simp add: example_runtime_def)

lemma utf8_encode_examples:
  "utf8_encode ''s3cr3t'' = ''s3cr3t''"
  "utf8_encode ''api.example.com'' = ''api.example.com''"
  "utf8_encode ''20190315'' = ''20190315''"
  "utf8_encode ''20190316'' = ''20190316''"
  by (simp_all add: utf8_encode_def utf8_char_def)

lemma example_config_fields:
  "endpointHost example_config = ''api.example.com''"
  "hashType example_config = ''sha256''"
  "apiVersion example_config = ''v4.20190315''"
  "secretKey example_config = ''s3cr3t''"
  "accessKey example_config = ''AKEXAMPLE''"
  "endpoint example_config = ''https://api.example.com''"
  "connectionMode example_config = ''API''"
  by (simp_all add: example_config_def)

lemma getSignKey_year_wrap:
  "getSignKey rt cfg secret (utc_time 2019 2 15 0 0) = getSignKey rt cfg secret (utc_time 12019 2 15 0 0)"
  by (simp add: getSignKey_unfold getCurrentDate_examples)

section \<open>The daily signing key\<close>

text \<open>
  Claim C2, as amended. For every secret key, timestamp and endpoint host the signing
  key is the keyed hash, under the key \<open>HMAC(secret key as UTF-8, date string)\<close>, of the
  host; for a valid timestamp whose year lies in \<open>0..9999\<close> the date string is the UTC
  date written with four, two and two decimal digits. Two timestamps with the same UTC
  calendar date give the same key. Two valid timestamps with different UTC calendar
  dates and years in \<open>0..9999\<close> give different date strings, so their keys differ
  unless the keyed hash collides, either on the two date strings under the secret key
  or on the host under the two intermediate keys.
\<close>

theorem getSignKey_daily:
  "getSignKey rt cfg secret now =
     createHmac_digest rt (hashType cfg)
       (createHmac_digest rt (hashType cfg) (utf8_encode secret) (utf8_encode (getCurrentDate now)))
       (utf8_encode (endpointHost cfg))
   \<and> (valid_date now \<and> 0 \<le> utcFullYear now \<and> utcFullYear now \<le> 9999 \<longrightarrow>
        utf8_encode (getCurrentDate now) = getCurrentDate now
        \<and> getCurrentDate now =
            [digit_char (nat (utcFullYear now) div 1000),
             digit_char (nat (utcFullYear now) div 100 mod 10),
             digit_char (nat (utcFullYear now) div 10 mod 10),
             digit_char (nat (utcFullYear now) mod 10),
             digit_char ((utcMonth now + 1) div 10), digit_char ((utcMonth now + 1) mod 10),
             digit_char (utcDate now div 10), digit_char (utcDate now mod 10)])
   \<and> (utc_day d = utc_day d' \<longrightarrow> getSignKey rt cfg secret d = getSignKey rt cfg secret d')
   \<and> (valid_date d1 \<and> 0 \<le> utcFullYear d1 \<and> utcFullYear d1 \<le> 9999
        \<and> valid_date d2 \<and> 0 \<le> utcFullYear d2 \<and> utcFullYear d2 \<le> 9999
        \<and> utc_day d1 \<noteq> utc_day d2 \<longrightarrow>
        getCurrentDate d1 \<noteq> getCurrentDate d2
        \<and> (getSignKey rt cfg secret d1 \<noteq> getSignKey rt cfg secret d2
             \<or> hmac_collision (createHmac_digest rt (hashType cfg))
                  (utf8_encode secret, getCurrentDate d1) (utf8_encode secret, getCurrentDate d2)
             \<or> hmac_collision (createHmac_digest rt (hashType cfg))
                  (createHmac_digest rt (hashType cfg) (utf8_encode secret) (getCurrentDate d1),
                   utf8_encode (endpointHost cfg))
                  (createHmac_digest rt (hashType cfg) (utf8_encode secret) (getCurrentDate d2),
                   utf8_encode (endpointHost cfg))))"
proof -
  let ?H = "createHmac_digest rt (hashType cfg)"
  have p1: "getSignKey rt cfg secret now =
     ?H (?H (utf8_encode secret) (utf8_encode (getCurrentDate now))) (utf8_encode (endpointHost cfg))"
    by (rule getSignKey_unfold)
  have p2: "valid_date now \<and> 0 \<le> utcFullYear now \<and> utcFullYear now \<le> 9999 \<longrightarrow>
        utf8_encode (getCurrentDate now) = getCurrentDate now
        \<and> getCurrentDate now =
            [digit_char (nat (utcFullYear now) div 1000),
             digit_char (nat (utcFullYear now) div 100 mod 10),
             digit_char (nat (utcFullYear now) div 10 mod 10),
             digit_char (nat (utcFullYear now) mod 10),
             digit_char ((utcMonth now + 1) div 10), digit_char ((utcMonth now + 1) mod 10),
             digit_char (utcDate now div 10), digit_char (utcDate now mod 10)]"
  proof
    assume "valid_date now \<and> 0 \<le> utcFullYear now \<and> utcFullYear now \<le> 9999"
    then have h: "valid_date now" "0 \<le> utcFullYear now" "utcFullYear now \<le> 9999"
      by blast+
    show "utf8_encode (getCurrentDate now) = getCurrentDate now
        \<and> getCurrentDate now =
            [digit_char (nat (utcFullYear now) div 1000),
             digit_char (nat (utcFullYear now) div 100 mod 10),
             digit_char (nat (utcFullYear now) div 10 mod 10),
             digit_char (nat (utcFullYear now) mod 10),
             digit_char ((utcMonth now + 1) div 10), digit_char ((utcMonth now + 1) mod 10),
             digit_char (utcDate now div 10), digit_char (utcDate now mod 10)]"
      using getCurrentDate_utf8[OF h] getCurrentDate_digits[OF h] by (rule conjI)
  qed
  have p3: "utc_day d = utc_day d' \<longrightarrow> getSignKey rt cfg secret d = getSignKey rt cfg secret d'"
  proof
    assume "utc_day d = utc_day d'"
    then have "getCurrentDate d = getCurrentDate d'" by (rule getCurrentDate_same_day)
    then show "getSignKey rt cfg secret d = getSignKey rt cfg secret d'"
      by (simp only: getSignKey_unfold)
  qed
  have p4: "valid_date d1 \<and> 0 \<le> utcFullYear d1 \<and> utcFullYear d1 \<le> 9999
        \<and> valid_date d2 \<and> 0 \<le> utcFullYear d2 \<and> utcFullYear d2 \<le> 9999
        \<and> utc_day d1 \<noteq> utc_day d2 \<longrightarrow>
        getCurrentDate d1 \<noteq> getCurrentDate d2
        \<and> (getSignKey rt cfg secret d1 \<noteq> getSignKey rt cfg secret d2
             \<or> hmac_collision ?H
                  (utf8_encode secret, getCurrentDate d1) (utf8_encode secret, getCurrentDate d2)
             \<or> hmac_collision ?H
                  (?H (utf8_encode secret) (getCurrentDate d1), utf8_encode (endpointHost cfg))
                  (?H (utf8_encode secret) (getCurrentDate d2), utf8_encode (endpointHost cfg)))"
  proof
    assume a: "valid_date d1 \<and> 0 \<le> utcFullYear d1 \<and> utcFullYear d1 \<le> 9999
        \<and> valid_date d2 \<and> 0 \<le> utcFullYear d2 \<and> utcFullYear d2 \<le> 9999
        \<and> utc_day d1 \<noteq> utc_day d2"
    then have h1: "valid_date d1" "0 \<le> utcFullYear d1" "utcFullYear d1 \<le> 9999"
      and h2: "valid_date d2" "0 \<le> utcFullYear d2" "utcFullYear d2 \<le> 9999"
      and nd: "utc_day d1 \<noteq> utc_day d2"
      by blast+
    have ne: "getCurrentDate d1 \<noteq> getCurrentDate d2"
    proof
      assume "getCurrentDate d1 = getCurrentDate d2"
      then have "utc_day d1 = utc_day d2" by (rule getCurrentDate_inj[OF h1 h2])
      with nd show False by contradiction
    qed
    have u: "utf8_encode (getCurrentDate d1) = getCurrentDate d1"
      "utf8_encode (getCurrentDate d2) = getCurrentDate d2"
      by (rule getCurrentDate_utf8[OF h1], rule getCurrentDate_utf8[OF h2])
    have k: "getSignKey rt cfg secret d1
               = ?H (?H (utf8_encode secret) (getCurrentDate d1)) (utf8_encode (endpointHost cfg))"
      "getSignKey rt cfg secret d2
               = ?H (?H (utf8_encode secret) (getCurrentDate d2)) (utf8_encode (endpointHost cfg))"
      by (simp_all only: getSignKey_unfold u)
    have "getSignKey rt cfg secret d1 \<noteq> getSignKey rt cfg secret d2
             \<or> hmac_collision ?H
                  (utf8_encode secret, getCurrentDate d1) (utf8_encode secret, getCurrentDate d2)
             \<or> hmac_collision ?H
                  (?H (utf8_encode secret) (getCurrentDate d1), utf8_encode (endpointHost cfg))
                  (?H (utf8_encode secret) (getCurrentDate d2), utf8_encode (endpointHost cfg))"
    proof (cases "?H (utf8_encode secret) (getCurrentDate d1) = ?H (utf8_encode secret) (getCurrentDate d2)")
      case True
      with ne have "hmac_collision ?H
                  (utf8_encode secret, getCurrentDate d1) (utf8_encode secret, getCurrentDate d2)"
        by (simp add: hmac_collision_def)
      then show ?thesis by blast
    next
      case False
      show ?thesis
      proof (cases "getSignKey rt cfg secret d1 = getSignKey rt cfg secret d2")
        case True
        with False k have "hmac_collision ?H
                  (?H (utf8_encode secret) (getCurrentDate d1), utf8_encode (endpointHost cfg))
                  (?H (utf8_encode secret) (getCurrentDate d2), utf8_encode (endpointHost cfg))"
          by (simp add: hmac_collision_def)
        then show ?thesis by blast
      next
        case False
        then show ?thesis by blast
      qed
    qed
    with ne show "getCurrentDate d1 \<noteq> getCurrentDate d2
        \<and> (getSignKey rt cfg secret d1 \<noteq> getSignKey rt cfg secret d2
             \<or> hmac_collision ?H
                  (utf8_encode secret, getCurrentDate d1) (utf8_encode secret, getCurrentDate d2)
             \<or> hmac_collision ?H
                  (?H (utf8_encode secret) (getCurrentDate d1), utf8_encode (endpointHost cfg))
                  (?H (utf8_encode secret) (getCurrentDate d2), utf8_encode (endpointHost cfg)))"
      by (rule conjI)
  qed
  from p1 p2 p3 p4 show ?thesis by (intro conjI)
qed

text \<open>
  The theorem at 15 March 2019, early and late in the day, and at 16 March 2019, with
  the example runtime, whose keyed hash does not collide on these inputs.
\<close>

theorem getSignKey_daily_witness:
  "getSignKey example_runtime example_config ''s3cr3t'' (utc_time 2019 2 15 0 0)
     = ''s3cr3t|20190315|api.example.com''
   \<and> getSignKey example_runtime example_config ''s3cr3t'' (utc_time 2019 2 15 23 59)
     = getSignKey example_runtime example_config ''s3cr3t'' (utc_time 2019 2 15 0 0)
   \<and> getCurrentDate (utc_time 2019 2 15 23 59) \<noteq> getCurrentDate (utc_time 2019 2 16 0 0)
   \<and> getSignKey example_runtime example_config ''s3cr3t'' (utc_time 2019 2 15 23 59)
     \<noteq> getSignKey example_runtime example_config ''s3cr3t'' (utc_time 2019 2 16 0 0)"
proof -
  have v: "valid_date (utc_time 2019 2 15 23 59)" "valid_date (utc_time 2019 2 16 0 0)"
    "valid_date (utc_time 2019 2 15 0 0)"
    by (simp_all add: valid_utc_time)
  note t = getSignKey_daily[of example_runtime example_config "''s3cr3t''" "utc_time 2019 2 15 0 0"
      "utc_time 2019 2 15 23 59" "utc_time 2019 2 15 0 0"
      "utc_time 2019 2 15 23 59" "utc_time 2019 2 16 0 0"]
  from t have k: "getSignKey example_runtime example_config ''s3cr3t'' (utc_time 2019 2 15 0 0)
     = ''s3cr3t|20190315|api.example.com''"
    by (simp add: getCurrentDate_examples example_hmac utf8_encode_examples example_config_fields)
  from t have s: "getSignKey example_runtime example_config ''s3cr3t'' (utc_time 2019 2 15 23 59)
     = getSignKey example_runtime example_config ''s3cr3t'' (utc_time 2019 2 15 0 0)"
    by (simp add: utc_day_utc_time)
  from t v have n: "getCurrentDate (utc_time 2019 2 15 23 59) \<noteq> getCurrentDate (utc_time 2019 2 16 0 0)"
    by (simp add: utc_day_utc_time utcFullYear_utc_time)
  have "getSignKey example_runtime example_config ''s3cr3t'' (utc_time 2019 2 16 0 0)
     = ''s3cr3t|20190316|api.example.com''"
    by (simp add: getSignKey_unfold getCurrentDate_examples example_hmac utf8_encode_examples
        example_config_fields)
  with k s n show ?thesis by simp
qed

text \<open>
  The claim as stated fails: the year is cut to its last four characters, so
  15 March 2019 and 15 March 12019, two different UTC days, get the same date string and
  therefore the same key, whatever the keyed hash is.
\<close>

theorem getSignKey_year_wrap_counterexample:
  "utc_day (utc_time 2019 2 15 0 0) \<noteq> utc_day (utc_time 12019 2 15 0 0)
   \<and> valid_date (utc_time 2019 2 15 0 0) \<and> valid_date (utc_time 12019 2 15 0 0)
   \<and> getCurrentDate (utc_time 2019 2 15 0 0) = getCurrentDate (utc_time 12019 2 15 0 0)
   \<and> getSignKey example_runtime example_config ''s3cr3t'' (utc_time 2019 2 15 0 0)
     = getSignKey example_runtime example_config ''s3cr3t'' (utc_time 12019 2 15 0 0)"
  by (simp add: getSignKey_unfold getCurrentDate_examples valid_utc_time utc_day_utc_time)

section \<open>Distinct requests, distinct canonical strings\<close>

lemma first_separator_unique:
  assumes "c \<notin> set a" "c \<notin> set b" "a @ c # x = b @ c # y"
  shows "a = b \<and> x = y"
proof -
  have "takeWhile (\<lambda>z. z \<noteq> c) (a @ c # x) = a"
    using assms(1) by (induction a) auto
  moreover have "takeWhile (\<lambda>z. z \<noteq> c) (b @ c # y) = b"
    using assms(2) by (induction b) auto
  ultimately have "a = b" using assms(3) by simp
  with assms(3) show ?thesis by simp
qed

lemma getAuthenticationString_parts:
  "getAuthenticationString rt cfg m p ts b (Some ct) =
     m @ CHR 0x0A # p @ CHR 0x0A #
       (ts @ LF @ ''host:'' @ endpointHost cfg @ LF @ ''content-type:'' @ ct @ LF
          @ ''x-backendai-version:'' @ apiVersion cfg @ LF)
       @ createHash_hex rt (hashType cfg) b"
  by (simp add: getAuthenticationString_def LF_def)

lemma canonical_string_eqD:
  assumes m: "CHR 0x0A \<notin> set m1" "CHR 0x0A \<notin> set m2"
    and d: "length (createHash_hex rt (hashType cfg) b1) = length (createHash_hex rt (hashType cfg) b2)
            \<or> (CHR 0x0A \<notin> set p1 \<and> CHR 0x0A \<notin> set p2)"
    and eq: "getAuthenticationString rt cfg m1 p1 ts b1 (Some ct)
             = getAuthenticationString rt cfg m2 p2 ts b2 (Some ct)"
  shows "m1 = m2 \<and> p1 = p2 \<and> createHash_hex rt (hashType cfg) b1 = createHash_hex rt (hashType cfg) b2"
proof -
  let ?T = "ts @ LF @ ''host:'' @ endpointHost cfg @ LF @ ''content-type:'' @ ct @ LF
          @ ''x-backendai-version:'' @ apiVersion cfg @ LF"
  let ?h1 = "createHash_hex rt (hashType cfg) b1"
  let ?h2 = "createHash_hex rt (hashType cfg) b2"
  from eq have e: "m1 @ CHR 0x0A # (p1 @ CHR 0x0A # ?T @ ?h1) = m2 @ CHR 0x0A # (p2 @ CHR 0x0A # ?T @ ?h2)"
    by (simp only: getAuthenticationString_parts)
  from first_separator_unique[OF m e]
  have mm: "m1 = m2" and r: "p1 @ CHR 0x0A # ?T @ ?h1 = p2 @ CHR 0x0A # ?T @ ?h2"
    by blast+
  from d have "p1 = p2 \<and> ?h1 = ?h2"
  proof
    assume len: "length ?h1 = length ?h2"
    from r have "(p1 @ CHR 0x0A # ?T) @ ?h1 = (p2 @ CHR 0x0A # ?T) @ ?h2" by simp
    with len have c: "p1 @ CHR 0x0A # ?T = p2 @ CHR 0x0A # ?T \<and> ?h1 = ?h2"
      using append_eq_append_conv[of "p1 @ CHR 0x0A # ?T" "p2 @ CHR 0x0A # ?T" ?h1 ?h2] by blast
    then have "p1 = p2" by simp
    with c show ?thesis by blast
  next
    assume "CHR 0x0A \<notin> set p1 \<and> CHR 0x0A \<notin> set p2"
    then have "p1 = p2 \<and> ?T @ ?h1 = ?T @ ?h2"
      using first_separator_unique[of "CHR 0x0A" p1 p2 "?T @ ?h1" "?T @ ?h2"] r by blast
    then show ?thesis by simp
  qed
  with mm show ?thesis by blast
qed

lemma single_field_changes:
  "m \<noteq> m' \<Longrightarrow> getAuthenticationString rt cfg m p ts b (Some ct) \<noteq> getAuthenticationString rt cfg m' p ts b (Some ct)"
  "p \<noteq> p' \<Longrightarrow> getAuthenticationString rt cfg m p ts b (Some ct) \<noteq> getAuthenticationString rt cfg m p' ts b (Some ct)"
  "ts \<noteq> ts' \<Longrightarrow> getAuthenticationString rt cfg m p ts b (Some ct) \<noteq> getAuthenticationString rt cfg m p ts' b (Some ct)"
  "host \<noteq> host' \<Longrightarrow> getAuthenticationString rt (cfg\<lparr>endpointHost := host\<rparr>) m p ts b (Some ct)
       \<noteq> getAuthenticationString rt (cfg\<lparr>endpointHost := host'\<rparr>) m p ts b (Some ct)"
  "ct \<noteq> ct' \<Longrightarrow> getAuthenticationString rt cfg m p ts b (Some ct) \<noteq> getAuthenticationString rt cfg m p ts b (Some ct')"
  "createHash_hex rt (hashType cfg) b \<noteq> createHash_hex rt (hashType cfg) b' \<Longrightarrow>
     getAuthenticationString rt cfg m p ts b (Some ct) \<noteq> getAuthenticationString rt cfg m p ts b' (Some ct)"
  "v \<noteq> v' \<Longrightarrow> getAuthenticationString rt (cfg\<lparr>apiVersion := v\<rparr>) m p ts b (Some ct)
       \<noteq> getAuthenticationString rt (cfg\<lparr>apiVersion := v'\<rparr>) m p ts b (Some ct)"
  by (simp_all add: getAuthenticationString_def)

lemma example_hash: "createHash_hex example_runtime alg x = alg @ ''('' @ x @ '')''"
  by (simp add: example_runtime_def)

text \<open>
  Claim C9, as amended. With timestamp, host, content type and protocol version fixed,
  two distinct triples of method, path and body whose methods contain no line feed, and
  whose body digests have the same length or whose paths contain no line feed, have
  distinct canonical strings unless the two bodies differ and have the same digest.
  Changing the method, the path, the timestamp, the host, the content type, the body
  digest or the version alone changes the canonical string.
\<close>

theorem getAuthenticationString_injective:
  "(CHR 0x0A \<notin> set m1 \<and> CHR 0x0A \<notin> set m2
      \<and> (length (createHash_hex rt (hashType cfg) b1) = length (createHash_hex rt (hashType cfg) b2)
           \<or> (CHR 0x0A \<notin> set p1 \<and> CHR 0x0A \<notin> set p2))
      \<and> (m1, p1, b1) \<noteq> (m2, p2, b2)
    \<longrightarrow> getAuthenticationString rt cfg m1 p1 ts b1 (Some ct)
          \<noteq> getAuthenticationString rt cfg m2 p2 ts b2 (Some ct)
        \<or> (b1 \<noteq> b2 \<and> createHash_hex rt (hashType cfg) b1 = createHash_hex rt (hashType cfg) b2))
   \<and> (m \<noteq> m' \<longrightarrow> getAuthenticationString rt cfg m p ts b (Some ct)
          \<noteq> getAuthenticationString rt cfg m' p ts b (Some ct))
   \<and> (p \<noteq> p' \<longrightarrow> getAuthenticationString rt cfg m p ts b (Some ct)
          \<noteq> getAuthenticationString rt cfg m p' ts b (Some ct))
   \<and> (ts \<noteq> ts' \<longrightarrow> getAuthenticationString rt cfg m p ts b (Some ct)
          \<noteq> getAuthenticationString rt cfg m p ts' b (Some ct))
   \<and> (host \<noteq> host' \<longrightarrow> getAuthenticationString rt (cfg\<lparr>endpointHost := host\<rparr>) m p ts b (Some ct)
          \<noteq> getAuthenticationString rt (cfg\<lparr>endpointHost := host'\<rparr>) m p ts b (Some ct))
   \<and> (ct \<noteq> ct' \<longrightarrow> getAuthenticationString rt cfg m p ts b (Some ct)
          \<noteq> getAuthenticationString rt cfg m p ts b (Some ct'))
   \<and> (createHash_hex rt (hashType cfg) b \<noteq> createHash_hex rt (hashType cfg) b'
        \<longrightarrow> getAuthenticationString rt cfg m p ts b (Some ct)
          \<noteq> getAuthenticationString rt cfg m p ts b' (Some ct))
   \<and> (v \<noteq> v' \<longrightarrow> getAuthenticationString rt (cfg\<lparr>apiVersion := v\<rparr>) m p ts b (Some ct)
          \<noteq> getAuthenticationString rt (cfg\<lparr>apiVersion := v'\<rparr>) m p ts b (Some ct))"
proof -
  have inj: "CHR 0x0A \<notin> set m1 \<and> CHR 0x0A \<notin> set m2
      \<and> (length (createHash_hex rt (hashType cfg) b1) = length (createHash_hex rt (hashType cfg) b2)
           \<or> (CHR 0x0A \<notin> set p1 \<and> CHR 0x0A \<notin> set p2))
      \<and> (m1, p1, b1) \<noteq> (m2, p2, b2)
    \<longrightarrow> getAuthenticationString rt cfg m1 p1 ts b1 (Some ct)
          \<noteq> getAuthenticationString rt cfg m2 p2 ts b2 (Some ct)
        \<or> (b1 \<noteq> b2 \<and> createHash_hex rt (hashType cfg) b1 = createHash_hex rt (hashType cfg) b2)"
  proof
    assume a: "CHR 0x0A \<notin> set m1 \<and> CHR 0x0A \<notin> set m2
      \<and> (length (createHash_hex rt (hashType cfg) b1) = length (createHash_hex rt (hashType cfg) b2)
           \<or> (CHR 0x0A \<notin> set p1 \<and> CHR 0x0A \<notin> set p2))
      \<and> (m1, p1, b1) \<noteq> (m2, p2, b2)"
    show "getAuthenticationString rt cfg m1 p1 ts b1 (Some ct)
          \<noteq> getAuthenticationString rt cfg m2 p2 ts b2 (Some ct)
        \<or> (b1 \<noteq> b2 \<and> createHash_hex rt (hashType cfg) b1 = createHash_hex rt (hashType cfg) b2)"
    proof (cases "getAuthenticationString rt cfg m1 p1 ts b1 (Some ct)
          = getAuthenticationString rt cfg m2 p2 ts b2 (Some ct)")
      case True
      with a have "m1 = m2 \<and> p1 = p2
          \<and> createHash_hex rt (hashType cfg) b1 = createHash_hex rt (hashType cfg) b2"
        by (intro canonical_string_eqD) blast+
      with a show ?thesis by blast
    next
      case False
      then show ?thesis by blast
    qed
  qed
  show ?thesis
    by (rule conjI[OF inj]) (intro conjI impI; rule single_field_changes; assumption)
qed

text \<open>The theorem at a request for \<open>/kernel/abc123\<close>, with one field changed at a time.\<close>

theorem getAuthenticationString_injective_witness:
  "getAuthenticationString example_runtime example_config ''GET'' ''/kernel/abc123'' ''2019-01-01T00:00:00.000Z'' [] (Some ''application/json'')
     \<noteq> getAuthenticationString example_runtime example_config ''DELETE'' ''/kernel/abc123'' ''2019-01-01T00:00:00.000Z'' [] (Some ''application/json'')
   \<and> getAuthenticationString example_runtime example_config ''GET'' ''/kernel/abc123'' ''2019-01-01T00:00:00.000Z'' [] (Some ''application/json'')
     \<noteq> getAuthenticationString example_runtime example_config ''GET'' ''/kernel/abc124'' ''2019-01-01T00:00:00.000Z'' [] (Some ''application/json'')
   \<and> getAuthenticationString example_runtime example_config ''GET'' ''/kernel/abc123'' ''2019-01-01T00:00:00.000Z'' [] (Some ''application/json'')
     \<noteq> getAuthenticationString example_runtime example_config ''GET'' ''/kernel/abc123'' ''2019-01-02T00:00:00.000Z'' [] (Some ''application/json'')
   \<and> getAuthenticationString example_runtime (example_config\<lparr>endpointHost := ''a.example.com''\<rparr>) ''GET'' ''/kernel/abc123'' ''2019-01-01T00:00:00.000Z'' [] (Some ''application/json'')
     \<noteq> getAuthenticationString example_runtime (example_config\<lparr>endpointHost := ''b.example.com''\<rparr>) ''GET'' ''/kernel/abc123'' ''2019-01-01T00:00:00.000Z'' [] (Some ''application/json'')
   \<and> getAuthenticationString example_runtime example_config ''GET'' ''/kernel/abc123'' ''2019-01-01T00:00:00.000Z'' [] (Some ''application/json'')
     \<noteq> getAuthenticationString example_runtime example_config ''GET'' ''/kernel/abc123'' ''2019-01-01T00:00:00.000Z'' [] (Some ''multipart/form-data'')
   \<and> getAuthenticationString example_runtime example_config ''GET'' ''/kernel/abc123'' ''2019-01-01T00:00:00.000Z'' [] (Some ''application/json'')
     \<noteq> getAuthenticationString example_runtime example_config ''GET'' ''/kernel/abc123'' ''2019-01-01T00:00:00.000Z'' ''{}'' (Some ''application/json'')
   \<and> getAuthenticationString example_runtime (example_config\<lparr>apiVersion := ''v3.20170615''\<rparr>) ''GET'' ''/kernel/abc123'' ''2019-01-01T00:00:00.000Z'' [] (Some ''application/json'')
     \<noteq> getAuthenticationString example_runtime (example_config\<lparr>apiVersion := ''v4.20190315''\<rparr>) ''GET'' ''/kernel/abc123'' ''2019-01-01T00:00:00.000Z'' [] (Some ''application/json'')"
  using getAuthenticationString_injective[where rt = example_runtime and cfg = example_config
      and ?m1.0 = "''GET''" and ?m2.0 = "''DELETE''" and ?p1.0 = "''/kernel/abc123''"
      and ?p2.0 = "''/kernel/abc123''" and ?b1.0 = "[]" and ?b2.0 = "[]"
      and ts = "''2019-01-01T00:00:00.000Z''" and ct = "''application/json''"
      and m = "''GET''" and m' = "''DELETE''" and p = "''/kernel/abc123''" and b = "[]"
      and p' = "''/kernel/abc124''" and ts' = "''2019-01-02T00:00:00.000Z''"
      and host = "''a.example.com''" and host' = "''b.example.com''"
      and ct' = "''multipart/form-data''" and b' = "''{}''"
      and v = "''v3.20170615''" and v' = "''v4.20190315''"]
  by (simp add: example_hash)

text \<open>
  The claim as stated fails when a method holds a line feed: the line feed that ends the
  method cannot be told from one inside it, so method \<open>GET\<close> with path
  \<open>/a\<newline>b\<close> and method \<open>GET\<newline>/a\<close> with path \<open>b\<close> have the same
  canonical string with the same body.
\<close>

theorem getAuthenticationString_newline_counterexample:
  "(''GET'', ''/a'' @ LF @ ''b'', ''{}'') \<noteq> (''GET'' @ LF @ ''/a'', ''b'', ''{}'')
   \<and> getAuthenticationString example_runtime example_config
         ''GET'' (''/a'' @ LF @ ''b'') ''2019-01-01T00:00:00.000Z'' ''{}'' (Some ''application/json'')
     = getAuthenticationString example_runtime example_config
         (''GET'' @ LF @ ''/a'') ''b'' ''2019-01-01T00:00:00.000Z'' ''{}'' (Some ''application/json'')"
  by (simp add: getAuthenticationString_def LF_def)

section \<open>Fields of the assembled requests\<close>

lemma set_body_headers_other:
  "k \<noteq> ''Content-Type'' \<Longrightarrow> k \<noteq> ''Content-Length'' \<Longrightarrow> set_body_headers rt b hdrs k = hdrs k"
  by (cases b) (simp_all add: set_body_headers_def Let_def)

lemma newSignedRequest_fields:
  "method (newSignedRequest rt cl d m q b) = m"
  "body (newSignedRequest rt cl d m q b) = Some (requestBody_of rt b)"
  "mode (newSignedRequest rt cl d m q b) = None"
  "credentials (newSignedRequest rt cl d m q b) = None"
  "cache (newSignedRequest rt cl d m q b) = ''default''"
  by (simp_all add: newSignedRequest_def Let_def split: prod.splits)

lemma newSignedRequest_uri:
  "uri (newSignedRequest rt cl d m q b) =
     (if connectionMode (config cl) = ''SESSION''
      then (if prefix ''/server'' q then endpoint (config cl) @ q
            else endpoint (config cl) @ ''/func'' @ q)
      else endpoint (config cl) @ q)"
  by (simp add: newSignedRequest_def Let_def startsWith_def)

lemma newSignedRequest_authorization:
  "headers (newSignedRequest rt cl d m q b) ''Authorization'' =
     (if connectionMode (config cl) = ''SESSION'' then None
      else Some (''BackendAI signMethod=HMAC-SHA256, credential='' @ accessKey (config cl) @ '':''
                 @ sign rt (config cl) (getSignKey rt (config cl) (secretKey (config cl)) d) Binary
                     (signed_aStr rt (config cl) d m q b) DigestHex))"
  by (simp add: newSignedRequest_def Let_def set_body_headers_other)

lemma newPublicRequest_fields:
  "method (newPublicRequest cl d m q b pfx) = m"
  "body (newPublicRequest cl d m q b pfx) = None"
  "mode (newPublicRequest cl d m q b pfx) = Some ''cors''"
  "credentials (newPublicRequest cl d m q b pfx) = None"
  "headers (newPublicRequest cl d m q b pfx) ''Authorization'' = None"
  by (simp_all add: newPublicRequest_def Let_def)

lemma newPublicRequest_uri:
  "uri (newPublicRequest cl d m q b pfx) =
     (if connectionMode (config cl) = ''SESSION''
      then (if prefix ''/server'' q then endpoint (config cl) @ q
            else endpoint (config cl) @ ''/func'' @ q)
      else endpoint (config cl) @ q)"
  by (simp add: newPublicRequest_def Let_def startsWith_def)

lemma prepare_request_fields:
  "method (prepare_request cfg rq) = method rq"
  "headers (prepare_request cfg rq) = headers rq"
  "uri (prepare_request cfg rq) = uri rq"
  "cache (prepare_request cfg rq) = cache rq"
  "body (prepare_request cfg rq) = (if method rq = ''GET'' then None else body rq)"
  "credentials (prepare_request cfg rq) =
     (if connectionMode cfg = ''SESSION'' then Some ''include'' else credentials rq)"
  "mode (prepare_request cfg rq) = (if connectionMode cfg = ''SESSION'' then Some ''cors'' else mode rq)"
  by (simp_all add: prepare_request_def Let_def)

lemma js_less_than_spelled:
  "js_less_than (charAt_index v 1) 4 = second_char_below_4 v"
  by (simp add: js_less_than_def charAt_index_def second_char_below_4_def)

lemma char_to_number_digit: "k < 10 \<Longrightarrow> char_to_number (digit_char k) = Some k"
  by (simp add: char_to_number_def of_char_digit_char Let_def)

lemma signed_aStr_spelled:
  "signed_aStr rt cfg d m q b =
     getAuthenticationString rt cfg m q (toISOString d)
       (if second_char_below_4 (apiVersion cfg) then authBody_of rt b else [])
       (Some (content_type_of b))"
  unfolding signed_aStr_def js_less_than_spelled by simp

lemma second_char_examples:
  "second_char_below_4 ''v4.20190315'' = False"
  "second_char_below_4 ''v3.20170615'' = True"
  "second_char_below_4 ''v10.20300101'' = True"
  "second_char_below_4 ''v9.20250722'' = False"
  by (simp_all add: second_char_below_4_def char_to_number_def)


lemma ClientConfig_new_apiVersion:
  "ClientConfig_new ak sk ep cm = Inr cfg0 \<Longrightarrow> apiVersion cfg0 = ''v4.20190315''"
  by (auto simp: ClientConfig_new_def Let_def split: option.splits)

lemma ClientConfig_new_example:
  "ClientConfig_new (Some ''AKEXAMPLE'') (Some ''s3cr3t'') (Some ''https://api.example.com'') None
     = Inr example_config"
  by (simp add: ClientConfig_new_def example_config_def strip_scheme_def)

lemma example_client_config: "config example_client = example_config"
  by (simp add: example_client_def Client_new_def)

lemma padded_version_examples:
  "padded_version ''v4.20190315'' = ''        v4.  20190315''"
  "padded_version ''v10.20300101'' = ''       v10.  20300101''"
  "padded_version ''v3.20170615'' = ''        v3.  20170615''"
  by (simp_all add: padded_version_def padStart_def eval_nat_numeral)

lemma string_le_examples:
  "string_le ''        v4.  20190315'' ''       v10.  20300101'' = True"
  "string_le ''        v4.  20190315'' ''        v3.  20170615'' = False"
  by simp_all

lemma prepare_request_get_body:
  "method rq = ''GET'' \<Longrightarrow> (prepare_request cfg rq)\<lparr>body := None\<rparr> = prepare_request cfg rq"
  by (simp add: prepare_request_def Let_def)

lemma session_client_config:
  "connectionMode (config session_client) = ''SESSION''"
  "endpoint (config session_client) = ''https://api.example.com''"
  by (simp_all add: session_client_def Client_new_def example_config_def)

section \<open>The body in the signed string\<close>

text \<open>
  Claim C10. The string an API-mode request signs hashes the authenticated body exactly
  when the protocol version has a character at index 1 that converts to a number below
  4, and hashes the empty string otherwise; for a JSON body the authenticated body is
  its serialisation. The signature in the \<open>Authorization\<close> header is computed over
  that string. When the second character is a decimal digit \<open>k\<close>, the body takes part
  exactly when \<open>k < 4\<close>. A configuration that comes from the constructor has version
  \<open>v4.20190315\<close>, under which the empty string is hashed.
\<close>

theorem body_exclusion_by_second_character:
  "signed_aStr rt cfg d m q b =
     getAuthenticationString rt cfg m q (toISOString d)
       (if second_char_below_4 (apiVersion cfg) then authBody_of rt b else [])
       (Some (content_type_of b))
   \<and> authBody_of rt (BodyValue v) = JSON_stringify rt v
   \<and> (connectionMode (config cl) \<noteq> ''SESSION'' \<longrightarrow>
        headers (newSignedRequest rt cl d m q b) ''Authorization'' =
          Some (''BackendAI signMethod=HMAC-SHA256, credential='' @ accessKey (config cl) @ '':''
                @ sign rt (config cl) (getSignKey rt (config cl) (secretKey (config cl)) d) Binary
                    (signed_aStr rt (config cl) d m q b) DigestHex))
   \<and> (k < 10 \<longrightarrow> second_char_below_4 (c0 # digit_char k # rest) = (k < 4))
   \<and> (ClientConfig_new ak sk ep cm = Inr cfg0 \<longrightarrow>
        apiVersion cfg0 = ''v4.20190315''
        \<and> signed_aStr rt cfg0 d m q b =
            getAuthenticationString rt cfg0 m q (toISOString d) [] (Some (content_type_of b)))"
proof -
  have p4: "k < 10 \<longrightarrow> second_char_below_4 (c0 # digit_char k # rest) = (k < 4)"
    by (simp add: second_char_below_4_def char_to_number_digit)
  have p5: "ClientConfig_new ak sk ep cm = Inr cfg0 \<longrightarrow>
        apiVersion cfg0 = ''v4.20190315''
        \<and> signed_aStr rt cfg0 d m q b =
            getAuthenticationString rt cfg0 m q (toISOString d) [] (Some (content_type_of b))"
  proof
    assume "ClientConfig_new ak sk ep cm = Inr cfg0"
    then have "apiVersion cfg0 = ''v4.20190315''" by (rule ClientConfig_new_apiVersion)
    then show "apiVersion cfg0 = ''v4.20190315''
        \<and> signed_aStr rt cfg0 d m q b =
            getAuthenticationString rt cfg0 m q (toISOString d) [] (Some (content_type_of b))"
      by (simp add: signed_aStr_spelled second_char_examples)
  qed
  have p2: "authBody_of rt (BodyValue v) = JSON_stringify rt v"
    by (simp add: authBody_of_def)
  have p3: "connectionMode (config cl) \<noteq> ''SESSION'' \<longrightarrow>
        headers (newSignedRequest rt cl d m q b) ''Authorization'' =
          Some (''BackendAI signMethod=HMAC-SHA256, credential='' @ accessKey (config cl) @ '':''
                @ sign rt (config cl) (getSignKey rt (config cl) (secretKey (config cl)) d) Binary
                    (signed_aStr rt (config cl) d m q b) DigestHex)"
    by (simp add: newSignedRequest_authorization)
  from signed_aStr_spelled[of rt cfg d m q b] p2 p3 p4 p5 show ?thesis by (intro conjI)
qed

text \<open>
  The theorem at a \<open>POST\<close> with a JSON body under the configuration the constructor
  builds, and at the versions \<open>v3.20170615\<close> and \<open>v4.20190315\<close>.
\<close>

theorem body_exclusion_by_second_character_witness:
  "headers (newSignedRequest example_runtime example_client (utc_time 2019 0 1 0 0)
              ''POST'' ''/kernel/create'' (BodyValue ''{\"lang\":\"python\"}'')) ''Authorization'' =
     Some (''BackendAI signMethod=HMAC-SHA256, credential=AKEXAMPLE:''
           @ sign example_runtime example_config
               (getSignKey example_runtime example_config ''s3cr3t'' (utc_time 2019 0 1 0 0)) Binary
               (getAuthenticationString example_runtime example_config ''POST'' ''/kernel/create''
                  (toISOString (utc_time 2019 0 1 0 0)) [] (Some ''application/json''))
               DigestHex)
   \<and> second_char_below_4 ''v3.20170615'' \<and> \<not> second_char_below_4 ''v4.20190315''
   \<and> apiVersion example_config = ''v4.20190315''"
  using body_exclusion_by_second_character[where rt = example_runtime and cfg = example_config
      and cl = example_client and d = "utc_time 2019 0 1 0 0" and m = "''POST''"
      and q = "''/kernel/create''" and b = "BodyValue ''{\"lang\":\"python\"}''"
      and k = 3 and ?c0.0 = "CHR ''v''" and rest = "''.20170615''"
      and ak = "Some ''AKEXAMPLE''" and sk = "Some ''s3cr3t''"
      and ep = "Some ''https://api.example.com''" and cm = None and ?cfg0.0 = example_config]
  by (simp add: ClientConfig_new_example example_client_config example_config_fields
      second_char_examples content_type_of_def digit_char_def)

text \<open>
  Claim C3 says the serialised body is hashed below a version threshold and the empty
  string at or above it. The source decides by the second character alone, so under
  version \<open>v10.20300101\<close> the serialised body is hashed, as under \<open>v3.20170615\<close> and
  unlike under \<open>v4.20190315\<close>, although \<open>isAPIVersionCompatibleWith\<close> of the same
  client orders version 10 above version 4. The body that is sent is the serialised body
  in every case.
\<close>

theorem signed_aStr_two_digit_version:
  "signed_aStr rt (cfg\<lparr>apiVersion := ''v10.20300101''\<rparr>) d m q (BodyValue v) =
     getAuthenticationString rt (cfg\<lparr>apiVersion := ''v10.20300101''\<rparr>) m q (toISOString d)
       (JSON_stringify rt v) (Some ''application/json'')
   \<and> signed_aStr rt (cfg\<lparr>apiVersion := ''v4.20190315''\<rparr>) d m q (BodyValue v) =
     getAuthenticationString rt (cfg\<lparr>apiVersion := ''v4.20190315''\<rparr>) m q (toISOString d)
       [] (Some ''application/json'')
   \<and> signed_aStr rt (cfg\<lparr>apiVersion := ''v3.20170615''\<rparr>) d m q (BodyValue v) =
     getAuthenticationString rt (cfg\<lparr>apiVersion := ''v3.20170615''\<rparr>) m q (toISOString d)
       (JSON_stringify rt v) (Some ''application/json'')
   \<and> isAPIVersionCompatibleWith (cl\<lparr>client_apiVersion := Some ''v10.20300101''\<rparr>) ''v4.20190315''
       = Some True
   \<and> isAPIVersionCompatibleWith (cl\<lparr>client_apiVersion := Some ''v3.20170615''\<rparr>) ''v4.20190315''
       = Some False
   \<and> body (newSignedRequest rt cl d m q (BodyValue v)) = Some (SentText (JSON_stringify rt v))"
  by (simp add: signed_aStr_spelled second_char_examples authBody_of_def content_type_of_def
      isAPIVersionCompatibleWith_def padded_version_examples string_le_examples
      newSignedRequest_fields requestBody_of_def)

section \<open>GET requests\<close>

text \<open>
  Claim C7, as amended. A request with method \<open>GET\<close> is handed to the transport
  without a body, whatever body argument the request constructor was given: the
  constructor stores the body it derives from its argument whatever the method is, and
  the processor clears the body before it calls \<open>fetch\<close>, so the outcome is the same
  under a transport that never sees a body.
\<close>

theorem get_request_is_sent_without_body:
  "body (newSignedRequest rt cl d ''GET'' q b) = Some (requestBody_of rt b)
   \<and> body (prepare_request cfg (newSignedRequest rt cl d ''GET'' q b)) = None
   \<and> body (prepare_request cfg (newPublicRequest cl d ''GET'' q b2 pfx)) = None
   \<and> body (prepare_request cfg (rq\<lparr>method := ''GET''\<rparr>)) = None
   \<and> wrapWithPromise cfg fetch (rq\<lparr>method := ''GET''\<rparr>) rawFile
       = wrapWithPromise cfg (\<lambda>u r. fetch u (r\<lparr>body := None\<rparr>)) (rq\<lparr>method := ''GET''\<rparr>) rawFile"
  by (simp add: prepare_request_fields newSignedRequest_fields newPublicRequest_fields
      wrapWithPromise_def Let_def prepare_request_get_body)

text \<open>
  The claim as stated fails for the request the constructor assembles: given method
  \<open>GET\<close> and a JSON body, \<open>newSignedRequest\<close> returns a request that holds the
  serialised body.
\<close>

theorem newSignedRequest_get_keeps_body_counterexample:
  "method (newSignedRequest example_runtime example_client (utc_time 2019 0 1 0 0)
              ''GET'' ''/kernel/abc123'' (BodyValue ''{\"a\":1}'')) = ''GET''
   \<and> body (newSignedRequest example_runtime example_client (utc_time 2019 0 1 0 0)
              ''GET'' ''/kernel/abc123'' (BodyValue ''{\"a\":1}'')) = Some (SentText ''{\"a\":1}'')
   \<and> body (newSignedRequest example_runtime example_client (utc_time 2019 0 1 0 0)
              ''GET'' ''/kernel/abc123'' (BodyValue ''{\"a\":1}'')) \<noteq> None"
  by (simp add: newSignedRequest_fields requestBody_of_def example_runtime_def)

section \<open>SESSION mode\<close>

text \<open>
  Claim C6, as amended. In SESSION mode neither request constructor attaches an
  \<open>Authorization\<close> header and the processor adds none; the processor sets
  \<open>credentials: include\<close> and \<open>mode: cors\<close> on the request before it calls the
  transport; and the target is the endpoint followed by the path when the path starts
  with the one literal prefix \<open>/server\<close>, under which the login, logout and
  login-check paths lie, and the endpoint followed by \<open>/func\<close> and the path for every
  other path. The two targets are never equal.
\<close>

theorem session_mode_request:
  "connectionMode (config cl) = ''SESSION'' \<longrightarrow>
     headers (newSignedRequest rt cl d m q b) ''Authorization'' = None
     \<and> headers (newPublicRequest cl d m q b2 pfx) ''Authorization'' = None
     \<and> headers (prepare_request (config cl) rq) = headers rq
     \<and> credentials (prepare_request (config cl) rq) = Some ''include''
     \<and> mode (prepare_request (config cl) rq) = Some ''cors''
     \<and> uri (prepare_request (config cl) rq) = uri rq
     \<and> uri (newSignedRequest rt cl d m q b) =
         (if prefix ''/server'' q then endpoint (config cl) @ q
          else endpoint (config cl) @ ''/func'' @ q)
     \<and> uri (newPublicRequest cl d m q b2 pfx) =
         (if prefix ''/server'' q then endpoint (config cl) @ q
          else endpoint (config cl) @ ''/func'' @ q)
     \<and> endpoint (config cl) @ q \<noteq> endpoint (config cl) @ ''/func'' @ q
     \<and> uri (newSignedRequest rt cl d m ''/server/login'' b) = endpoint (config cl) @ ''/server/login''
     \<and> uri (newSignedRequest rt cl d m ''/server/logout'' b) = endpoint (config cl) @ ''/server/logout''
     \<and> uri (check_login_request rt cl d) = endpoint (config cl) @ ''/server/login-check''"
  by (simp add: newSignedRequest_authorization newPublicRequest_fields prepare_request_fields
      newSignedRequest_uri newPublicRequest_uri check_login_request_def)

text \<open>The theorem at a SESSION-mode client, for a kernel path and for the login check.\<close>

theorem session_mode_request_witness:
  "headers (newSignedRequest example_runtime session_client (utc_time 2019 0 1 0 0)
              ''GET'' ''/kernel/abc123'' BodyNull) ''Authorization'' = None
   \<and> credentials (prepare_request (config session_client)
         (newSignedRequest example_runtime session_client (utc_time 2019 0 1 0 0)
              ''GET'' ''/kernel/abc123'' BodyNull)) = Some ''include''
   \<and> mode (prepare_request (config session_client)
         (newSignedRequest example_runtime session_client (utc_time 2019 0 1 0 0)
              ''GET'' ''/kernel/abc123'' BodyNull)) = Some ''cors''
   \<and> uri (newSignedRequest example_runtime session_client (utc_time 2019 0 1 0 0)
              ''GET'' ''/kernel/abc123'' BodyNull) = ''https://api.example.com/func/kernel/abc123''
   \<and> uri (check_login_request example_runtime session_client (utc_time 2019 0 1 0 0))
       = ''https://api.example.com/server/login-check''"
  using session_mode_request[where cl = session_client and rt = example_runtime
      and d = "utc_time 2019 0 1 0 0" and m = "''GET''" and q = "''/kernel/abc123''"
      and b = BodyNull and ?b2.0 = "BodyNull :: unit body_arg" and pfx = "[]"
      and rq = "newSignedRequest example_runtime session_client (utc_time 2019 0 1 0 0)
              ''GET'' ''/kernel/abc123'' BodyNull"]
  by (simp add: session_client_config)

text \<open>
  The claim as stated fails for a path that starts with \<open>/server\<close> and is none of the
  login, logout and login-check paths: it is routed directly, not through \<open>/func\<close>.
  The request the constructor returns carries neither transport flag; the processor
  sets them.
\<close>

theorem session_bypass_prefix_counterexample:
  "\<not> prefix ''/server/login'' ''/server/status''
   \<and> \<not> prefix ''/server/logout'' ''/server/status''
   \<and> \<not> prefix ''/server/login-check'' ''/server/status''
   \<and> uri (newSignedRequest example_runtime session_client (utc_time 2019 0 1 0 0)
              ''GET'' ''/server/status'' BodyNull) = ''https://api.example.com/server/status''
   \<and> uri (newSignedRequest example_runtime session_client (utc_time 2019 0 1 0 0)
              ''GET'' ''/server/status'' BodyNull) \<noteq> ''https://api.example.com/func/server/status''
   \<and> credentials (newSignedRequest example_runtime session_client (utc_time 2019 0 1 0 0)
              ''GET'' ''/server/status'' BodyNull) = None
   \<and> mode (newSignedRequest example_runtime session_client (utc_time 2019 0 1 0 0)
              ''GET'' ''/server/status'' BodyNull) = None"
  by (simp add: newSignedRequest_uri newSignedRequest_fields session_client_config)

section \<open>Outcomes of the response processor\<close>

lemma body_title_None:
  "body_title b = None \<longleftrightarrow>
     b = DecodedJson JNull
     \<or> (\<exists>kvs j. b = DecodedJson (JObj kvs) \<and> map_of kvs ''title'' = Some j \<and> js_toString j = None)"
  by (cases b rule: body_title.cases) (auto split: option.splits)

lemma wrapWithPromise_outcomes:
  "fetch (uri (prepare_request cfg rq)) (prepare_request cfg rq) = Inl err \<Longrightarrow>
     wrapWithPromise cfg fetch rq rawFile
       = Rejected (ClassifiedError ERR_REQUEST (''sending request has failed: '' @ err))"
  "fetch (uri (prepare_request cfg rq)) (prepare_request cfg rq) = Inr resp \<Longrightarrow>
   read_body (select_decoder rawFile (content_type_header resp)) resp = Inl err \<Longrightarrow>
     wrapWithPromise cfg fetch rq rawFile
       = Rejected (ClassifiedError ERR_RESPONSE (''reading response has failed: '' @ err))"
  "fetch (uri (prepare_request cfg rq)) (prepare_request cfg rq) = Inr resp \<Longrightarrow>
   read_body (select_decoder rawFile (content_type_header resp)) resp = Inr b \<Longrightarrow>
   \<not> response_ok resp \<Longrightarrow> body_title b = Some t \<Longrightarrow>
     wrapWithPromise cfg fetch rq rawFile
       = Rejected (ClassifiedError ERR_SERVER
           (''server responded failure: '' @ nat_to_string (status resp) @ '' '' @ statusText resp
            @ '' - '' @ t))"
  "fetch (uri (prepare_request cfg rq)) (prepare_request cfg rq) = Inr resp \<Longrightarrow>
   read_body (select_decoder rawFile (content_type_header resp)) resp = Inr b \<Longrightarrow>
   \<not> response_ok resp \<Longrightarrow> body_title b = None \<Longrightarrow>
     wrapWithPromise cfg fetch rq rawFile = Rejected UncaughtTypeError"
  "fetch (uri (prepare_request cfg rq)) (prepare_request cfg rq) = Inr resp \<Longrightarrow>
   read_body (select_decoder rawFile (content_type_header resp)) resp = Inr b \<Longrightarrow>
   response_ok resp \<Longrightarrow>
     wrapWithPromise cfg fetch rq rawFile = Resolved b"
  by (simp_all add: wrapWithPromise_def Let_def)

lemma select_decoder_examples:
  "select_decoder False None = RawBinary"
  "select_decoder False (Some ''application/json'') = JsonParse"
  "select_decoder False (Some ''application/problem+json'') = JsonParse"
  "select_decoder False (Some ''text/plain'') = TextDecode"
  "select_decoder False (Some ''application/octet-stream'') = RawBinary"
  "select_decoder True c = RawBinary"
  by (simp_all add: select_decoder_def startsWith_def)

lemma nat_to_string_status:
  "nat_to_string 404 = ''404''" "nat_to_string 500 = ''500''" "nat_to_string 200 = ''200''"
  by (simp_all add: nat_to_string.simps digit_char_def)

lemma json_response_fields:
  "content_type_header (json_response st tx raw j) = Some ''application/json''"
  "status (json_response st tx raw j) = st"
  "statusText (json_response st tx raw j) = tx"
  "has_blob (json_response st tx raw j) = False"
  "json_result (json_response st tx raw j) = Inr j"
  "buffer_result (json_response st tx raw j) = Inr raw"
  by (simp_all add: json_response_def)

lemma text_response_fields:
  "content_type_header (text_response st tx ct t) = Some ct"
  "status (text_response st tx ct t) = st"
  "statusText (text_response st tx ct t) = tx"
  "text_result (text_response st tx ct t) = Inr t"
  by (simp_all add: text_response_def)

text \<open>
  Claim C4 says every failure is classified into one of the three phases. A response
  with a non-2xx status whose JSON body is \<open>null\<close> is not: building the message reads
  \<open>body.title\<close> inside the handler, the \<open>TypeError\<close> escapes it, and the promise
  rejects with that instead of a classified error. For contrast, the 404 response with
  title \<open>Kernel not found\<close> is rejected with type \<open>ERR_SERVER\<close> and a message that
  carries status, status text and title, and a transport failure with type
  \<open>ERR_REQUEST\<close>.
\<close>

theorem null_body_error_is_not_classified:
  "wrapWithPromise cfg (\<lambda>u r. Inr (json_response 500 ''Internal Server Error'' ''null'' JNull)) rq False
     = Rejected UncaughtTypeError
   \<and> wrapWithPromise cfg
        (\<lambda>u r. Inr (json_response 404 ''Not Found'' ''{\"title\":\"Kernel not found\"}''
                       (JObj [(''title'', JStr ''Kernel not found'')]))) rq False
     = Rejected (ClassifiedError ERR_SERVER
                   ''server responded failure: 404 Not Found - Kernel not found'')
   \<and> wrapWithPromise cfg (\<lambda>u r. Inl ''connect ECONNREFUSED'') rq False
     = Rejected (ClassifiedError ERR_REQUEST ''sending request has failed: connect ECONNREFUSED'')"
  by (simp add: wrapWithPromise_def Let_def json_response_fields select_decoder_examples
      read_body_def response_ok_def nat_to_string_status)

section \<open>Choice of the body reader\<close>

text \<open>
  Claim C5, as amended. When \<open>rawFile\<close> is false, the reader depends on the content
  type alone: an absent content type gives raw binary, one that starts with
  \<open>application/json\<close> or \<open>application/problem+json\<close> gives JSON parsing, any other
  one that starts with \<open>text/\<close> gives text decoding, and everything else gives raw
  binary. When \<open>rawFile\<close> is true the reader is raw binary whatever the content type.
  A value the processor resolves with was read by the reader so chosen.
\<close>

theorem select_decoder_dispatch:
  "select_decoder False None = RawBinary
   \<and> select_decoder False (Some ct) =
       (if prefix ''application/json'' ct \<or> prefix ''application/problem+json'' ct then JsonParse
        else if prefix ''text/'' ct then TextDecode
        else RawBinary)
   \<and> select_decoder True c = RawBinary
   \<and> select_decoder False (Some ''application/json'') = JsonParse
   \<and> select_decoder False (Some ''application/problem+json'') = JsonParse
   \<and> select_decoder False (Some ''text/plain'') = TextDecode
   \<and> select_decoder False (Some ''application/octet-stream'') = RawBinary
   \<and> (wrapWithPromise cfg fetch rq rawFile = Resolved b \<longrightarrow>
        (\<exists>resp. fetch (uri (prepare_request cfg rq)) (prepare_request cfg rq) = Inr resp
           \<and> read_body (select_decoder rawFile (content_type_header resp)) resp = Inr b))"
proof -
  have link: "wrapWithPromise cfg fetch rq rawFile = Resolved b \<longrightarrow>
        (\<exists>resp. fetch (uri (prepare_request cfg rq)) (prepare_request cfg rq) = Inr resp
           \<and> read_body (select_decoder rawFile (content_type_header resp)) resp = Inr b)"
    by (auto simp: wrapWithPromise_def Let_def split: sum.splits if_splits option.splits)
  have gen: "select_decoder False (Some ct) =
       (if prefix ''application/json'' ct \<or> prefix ''application/problem+json'' ct then JsonParse
        else if prefix ''text/'' ct then TextDecode
        else RawBinary)"
    by (simp add: select_decoder_def startsWith_def)
  from link gen show ?thesis by (simp add: select_decoder_examples)
qed

text \<open>The theorem at a \<open>text/plain\<close> response with body \<open>ok\<close>.\<close>

theorem select_decoder_dispatch_witness:
  "wrapWithPromise example_config (\<lambda>u r. Inr (text_response 200 ''OK'' ''text/plain'' ''ok''))
      (getServerVersion_request example_client (utc_time 2019 0 1 0 0)) False
     = Resolved (DecodedText ''ok'')
   \<and> read_body (select_decoder False (Some ''text/plain'')) (text_response 200 ''OK'' ''text/plain'' ''ok'')
     = Inr (DecodedText ''ok'')"
proof -
  have r: "wrapWithPromise example_config (\<lambda>u r. Inr (text_response 200 ''OK'' ''text/plain'' ''ok''))
      (getServerVersion_request example_client (utc_time 2019 0 1 0 0)) False
     = Resolved (DecodedText ''ok'')"
    by (simp add: wrapWithPromise_def Let_def text_response_fields select_decoder_examples
        read_body_def response_ok_def)
  from select_decoder_dispatch[where cfg = example_config
      and fetch = "\<lambda>u r. Inr (text_response 200 ''OK'' ''text/plain'' ''ok'')"
      and rq = "getServerVersion_request example_client (utc_time 2019 0 1 0 0)"
      and rawFile = False and b = "DecodedText ''ok''" and ct = "''text/plain''" and c = None] r
  show ?thesis by (simp add: text_response_fields select_decoder_examples)
qed

text \<open>
  The claim as stated fails for a download: with \<open>rawFile\<close> true a response of
  content type \<open>application/json\<close> is read as raw binary, not parsed.
\<close>

theorem select_decoder_rawFile_counterexample:
  "select_decoder True (Some ''application/json'') \<noteq> JsonParse
   \<and> wrapWithPromise example_config (\<lambda>u r. Inr (json_response 200 ''OK'' ''{}'' (JObj [])))
        (getServerVersion_request example_client (utc_time 2019 0 1 0 0)) True
      = Resolved (DecodedBuffer ''{}'')"
  by (simp add: wrapWithPromise_def Let_def json_response_fields select_decoder_examples
      read_body_def response_ok_def)

section \<open>Writes to the configuration\<close>

text \<open>
  Claim C8, as amended. \<open>getManagerVersion\<close> changes no field of the configuration but
  the protocol version, which becomes the version the server reports when the manager
  version is not yet known and the probe succeeds; once the manager version is known, a
  further call changes nothing, whatever the server reports. \<open>check_login\<close> changes
  nothing of the client but the access key, which becomes the one the server reports
  when the login check succeeds and says the client is authenticated. Endpoint,
  endpoint host, secret key, hash algorithm and connection mode are changed by
  neither.
\<close>

theorem config_changes_only_by_version_and_login_check:
  "config (fst (getManagerVersion cl probe)) =
     (config cl)\<lparr>apiVersion :=
        (case probe of
           Resolved v \<Rightarrow> (if managerVersion cl = None then version v else apiVersion (config cl))
         | Rejected e \<Rightarrow> apiVersion (config cl))\<rparr>
   \<and> fst (getManagerVersion (fst (getManagerVersion cl (Resolved v))) probe')
       = fst (getManagerVersion cl (Resolved v))
   \<and> fst (getManagerVersion (cl\<lparr>managerVersion := Some mv\<rparr>) probe) = cl\<lparr>managerVersion := Some mv\<rparr>
   \<and> fst (check_login cl outcome) =
       cl\<lparr>config := (config cl)\<lparr>accessKey :=
          (case outcome of
             Resolved r \<Rightarrow> (if authenticated r then data_access_key r else accessKey (config cl))
           | Rejected e \<Rightarrow> accessKey (config cl))\<rparr>\<rparr>"
  by (simp add: getManagerVersion_def check_login_def Let_def split: promise.splits)

text \<open>
  The claim as stated fails for \<open>check_login\<close>: an authenticated reply replaces the
  access key of the configuration.
\<close>

theorem check_login_changes_accessKey_counterexample:
  "accessKey (config example_client) = ''AKEXAMPLE''
   \<and> accessKey (config (fst (check_login example_client
         (Resolved \<lparr>authenticated = True, data_access_key = ''AKSERVER''\<rparr>)))) = ''AKSERVER''"
  by (simp add: check_login_def example_client_def Client_new_def example_config_def)

end
